theory Spec2Isabelle
  imports Main "HOL-Library.AList"
begin

section \<open>Python values that the exporter handles\<close>

text \<open>
  The program is \<^verbatim>\<open>exporta_oportunidades_rdstation.py\<close>; two other variants of the same
  script (\<^verbatim>\<open>03.GerJson - ATM(2).py\<close>) differ in how they decide that a day has no more
  pages, and the parts of them that differ are modelled further down.

  A decoded JSON body is a Python value.  \<open>JNull\<close> is Python's \<^verbatim>\<open>None\<close>: a body
  \<^verbatim>\<open>null\<close> and the value \<^verbatim>\<open>fetch_deals\<close> returns after its last failed attempt are the same
  object.  Strings are kept as their UTF-8 bytes, the bytes that end up in the file
  (text with no UTF-8 encoding, a lone surrogate, is left out).  A float is kept as the text
  \<^verbatim>\<open>json.dump\<close> writes for it (\<^verbatim>\<open>float.__repr__\<close>, or \<^verbatim>\<open>NaN\<close>, \<^verbatim>\<open>Infinity\<close>,
  \<^verbatim>\<open>-Infinity\<close>): the program only tests a float for truth and writes it back.  An
  object is the list of its members in insertion order; the keys of a decoded object
  are distinct.

  Where the answer is the platform's and not the program's, the model follows CPython
  3.11 on Linux with glibc, and says so at the definition.  The integers that the program
  turns into text (page numbers, attempt numbers, delays) are taken to have at most
  4300 digits: beyond that Python refuses the conversion.
\<close>

datatype json =
    JNull
  | JBool bool
  | JInt int
  | JFloat string
  | JStr string
  | JList "json list"
  | JObj "(string \<times> json) list"

datatype exn = AttributeError | TypeError | ValueError | OverflowError | OSError | RecursionError

text \<open>\<^verbatim>\<open>not x\<close> is \<open>\<not> truthy x\<close>.\<close>

fun truthy :: "json \<Rightarrow> bool" where
  "truthy JNull = False"
| "truthy (JBool b) = b"
| "truthy (JInt i) = (i \<noteq> 0)"
| "truthy (JFloat r) = (r \<noteq> ''0.0'' \<and> r \<noteq> ''-0.0'')"
| "truthy (JStr s) = (s \<noteq> [])"
| "truthy (JList xs) = (xs \<noteq> [])"
| "truthy (JObj kvs) = (kvs \<noteq> [])"

text \<open>
  \<^verbatim>\<open>len(str)\<close> counts code points: the bytes of the UTF-8 text that are not
  continuation bytes (\<^verbatim>\<open>10xxxxxx\<close>).
\<close>

definition code_points :: "string \<Rightarrow> nat" where
  "code_points s = length (filter (\<lambda>c. \<not> (128 \<le> (of_char c :: nat) \<and> (of_char c :: nat) < 192)) s)"

text \<open>\<^verbatim>\<open>len(x)\<close>: numbers, booleans and \<^verbatim>\<open>None\<close> have no length.\<close>

fun py_len :: "json \<Rightarrow> exn + int" where
  "py_len (JStr s) = Inr (int (code_points s))"
| "py_len (JList xs) = Inr (int (length xs))"
| "py_len (JObj kvs) = Inr (int (length kvs))"
| "py_len JNull = Inl TypeError"
| "py_len (JBool b) = Inl TypeError"
| "py_len (JInt i) = Inl TypeError"
| "py_len (JFloat r) = Inl TypeError"

text \<open>\<^verbatim>\<open>x.get(key, default)\<close>: only a dict has the method.\<close>

fun py_get :: "json \<Rightarrow> string \<Rightarrow> json \<Rightarrow> exn + json" where
  "py_get (JObj kvs) k d = Inr (case map_of kvs k of Some v \<Rightarrow> v | None \<Rightarrow> d)"
| "py_get JNull k d = Inl AttributeError"
| "py_get (JBool b) k d = Inl AttributeError"
| "py_get (JInt i) k d = Inl AttributeError"
| "py_get (JFloat r) k d = Inl AttributeError"
| "py_get (JStr s) k d = Inl AttributeError"
| "py_get (JList xs) k d = Inl AttributeError"

text \<open>\<^verbatim>\<open>isinstance(x, list)\<close>.\<close>

fun is_list :: "json \<Rightarrow> bool" where
  "is_list (JList xs) = True"
| "is_list _ = False"

section \<open>Numbers and dates as text\<close>

definition digit :: "nat \<Rightarrow> char" where
  "digit n = ''0123456789abcdef'' ! n"

fun decimal :: "nat \<Rightarrow> string" where
  "decimal n = (if n < 10 then [digit n] else decimal (n div 10) @ [digit (n mod 10)])"

declare decimal.simps [simp del]

text \<open>\<^verbatim>\<open>str(i)\<close> of an int, as an f-string field \<^verbatim>\<open>{page}\<close> formats it.\<close>

definition py_str :: "int \<Rightarrow> string" where
  "py_str i = (if i < 0 then ''-'' @ decimal (nat (- i)) else decimal (nat i))"

text \<open>Left padding with zeros to a width, as \<^verbatim>\<open>%m\<close>, \<^verbatim>\<open>%d\<close>, \<^verbatim>\<open>%H\<close>, \<^verbatim>\<open>%M\<close> and
  \<^verbatim>\<open>%S\<close> (width 2) do.\<close>

definition zero_pad :: "nat \<Rightarrow> nat \<Rightarrow> string" where
  "zero_pad width n = replicate (width - length (decimal n)) (CHR ''0'') @ decimal n"

text \<open>
  A \<^verbatim>\<open>datetime\<close>.  Python keeps \<open>1 \<le> year \<le> 9999\<close>, \<open>1 \<le> month \<le> 12\<close>, the day within
  the month, \<open>hour < 24\<close>, \<open>minute < 60\<close>, \<open>second < 60\<close>.
\<close>

record datetime =
  year :: nat
  month :: nat
  day :: nat
  hour :: nat
  minute :: nat
  second :: nat
  microsecond :: nat

definition valid_datetime :: "datetime \<Rightarrow> bool" where
  "valid_datetime d =
     (1 \<le> year d \<and> year d \<le> 9999 \<and> 1 \<le> month d \<and> month d \<le> 12 \<and>
      1 \<le> day d \<and> day d \<le> 31 \<and> hour d < 24 \<and> minute d < 60 \<and> second d < 60 \<and>
      microsecond d < 1000000)"

text \<open>
  \<^verbatim>\<open>date.strftime("%Y-%m-%d")\<close>.  With glibc \<^verbatim>\<open>%Y\<close> is the year in decimal and is not
  padded: the year 999 is written \<^verbatim>\<open>999\<close>.  From the year 1000 on, which covers every
  date \<^verbatim>\<open>main\<close> passes, that is four digits on every platform.
\<close>

definition strftime_date :: "datetime \<Rightarrow> string" where
  "strftime_date d = decimal (year d) @ ''-'' @ zero_pad 2 (month d) @ ''-'' @ zero_pad 2 (day d)"

text \<open>\<^verbatim>\<open>date.strftime("%Y-%m-%dT%H:%M:%S")\<close>\<close>

definition strftime_iso :: "datetime \<Rightarrow> string" where
  "strftime_iso d =
     strftime_date d @ ''T'' @ zero_pad 2 (hour d) @ '':'' @ zero_pad 2 (minute d) @ '':'' @
     zero_pad 2 (second d)"

section \<open>\<^verbatim>\<open>json.dump(data, f, ensure_ascii=False, indent=4)\<close>\<close>

text \<open>
  With \<^verbatim>\<open>ensure_ascii=False\<close> the encoder escapes the quote, the backslash and the
  control characters below \<^verbatim>\<open>0x20\<close>, and copies every other character.
\<close>

definition escape_char :: "char \<Rightarrow> string" where
  "escape_char c =
     (if c = CHR 0x22 then [CHR 0x5C, CHR 0x22]
      else if c = CHR 0x5C then [CHR 0x5C, CHR 0x5C]
      else if c = CHR 0x0A then [CHR 0x5C, CHR ''n'']
      else if c = CHR 0x0D then [CHR 0x5C, CHR ''r'']
      else if c = CHR 0x09 then [CHR 0x5C, CHR ''t'']
      else if c = CHR 0x08 then [CHR 0x5C, CHR ''b'']
      else if c = CHR 0x0C then [CHR 0x5C, CHR ''f'']
      else if (of_char c :: nat) < 32
        then [CHR 0x5C, CHR ''u'', CHR ''0'', CHR ''0'',
              digit ((of_char c :: nat) div 16), digit ((of_char c :: nat) mod 16)]
      else [c])"

definition encode_str :: "string \<Rightarrow> string" where
  "encode_str s = [CHR 0x22] @ concat (map escape_char s) @ [CHR 0x22]"

definition newline_indent :: "nat \<Rightarrow> string" where
  "newline_indent level = CHR 0x0A # replicate (4 * level) (CHR '' '')"

text \<open>Items are separated by a comma and a new line at the level of the items.\<close>

fun join_items :: "nat \<Rightarrow> string list \<Rightarrow> string" where
  "join_items level [] = []"
| "join_items level [x] = x"
| "join_items level (x # y # ys) = x @ '','' @ newline_indent level @ join_items level (y # ys)"

fun encode :: "nat \<Rightarrow> json \<Rightarrow> string"
  and encode_items :: "nat \<Rightarrow> json list \<Rightarrow> string list"
  and encode_members :: "nat \<Rightarrow> (string \<times> json) list \<Rightarrow> string list" where
  "encode level JNull = ''null''"
| "encode level (JBool b) = (if b then ''true'' else ''false'')"
| "encode level (JInt i) = py_str i"
| "encode level (JFloat r) = r"
| "encode level (JStr s) = encode_str s"
| "encode level (JList xs) =
     (if xs = [] then ''[]''
      else ''['' @ newline_indent (level + 1) @ join_items (level + 1) (encode_items (level + 1) xs) @
           newline_indent level @ '']'')"
| "encode level (JObj kvs) =
     (if kvs = [] then ''{}''
      else ''{'' @ newline_indent (level + 1) @ join_items (level + 1) (encode_members (level + 1) kvs) @
           newline_indent level @ ''}'')"
| "encode_items level [] = []"
| "encode_items level (x # xs) = encode level x # encode_items level xs"
| "encode_members level [] = []"
| "encode_members level ((k, v) # kvs) =
     (encode_str k @ '': '' @ encode level v) # encode_members level kvs"

definition json_dump :: "json \<Rightarrow> string" where
  "json_dump data = encode 0 data"

section \<open>The configuration, the client and the world around them\<close>

text \<open>\<^verbatim>\<open>@dataclass class APIConfig\<close>, with the defaults of its last three fields.\<close>

record APIConfig =
  base_url :: string
  token :: string
  per_page :: int
  retry_attempts :: int
  retry_delay :: int

definition APIConfig_init :: "string \<Rightarrow> string \<Rightarrow> APIConfig" where
  "APIConfig_init url tok =
     \<lparr>base_url = url, token = tok, per_page = 200, retry_attempts = 3, retry_delay = 5\<rparr>"

text \<open>\<^verbatim>\<open>Path(directory)\<close> and \<^verbatim>\<open>directory / name\<close>.\<close>

datatype path = Path string | Child path string

datatype param = PStr string | PBool bool | PInt int

datatype level = INFO | WARNING | ERROR

text \<open>
  A log record is kept as the kind of its message and the values the f-string
  interpolates, in the order of the source.
\<close>

datatype message =
    FetchedOk datetime int
  | AttemptFailed int datetime int
  | Waiting int
  | GaveUp
  | PageSaved int datetime path
  | PageEmpty int datetime
  | EndOfPages datetime
  | Saved path

text \<open>
  What the program does to the world, in order: a GET with its URL, query parameters
  and headers; a sleep; a log record; the writing of a file; a line printed.
\<close>

datatype event =
    HttpGet string "(string \<times> param) list" "(string \<times> string) list"
  | Sleep int
  | Log level message
  | FileWrite path string
  | Print message

text \<open>
  What one GET comes to.  \<open>RequestFailed\<close>: \<^verbatim>\<open>requests.get\<close> raises a \<^verbatim>\<open>RequestException\<close>
  (no connection, a timeout, ...).  \<open>GetError\<close>: it raises an exception of another class
  (requests raises \<^verbatim>\<open>OSError\<close> when it does not find its CA bundle).  \<open>Response\<close>: it
  returns a response with a status code and a body, and the body decodes to a JSON value,
  or it is not JSON and \<^verbatim>\<open>response.json()\<close> raises \<^verbatim>\<open>JSONDecodeError\<close> (\<open>None\<close>).
  \<open>DecoderError\<close>: it returns a response on whose body the decoder gives up with another
  exception: \<^verbatim>\<open>ValueError\<close> for an integer of more than 4300 digits, \<^verbatim>\<open>RecursionError\<close>
  for brackets nested deeper than the interpreter's stack.
\<close>

datatype http_result =
    RequestFailed
  | GetError exn
  | Response int "json option"
  | DecoderError int exn

text \<open>
  The state: the one \<^verbatim>\<open>APIConfig\<close> object that \<^verbatim>\<open>main\<close> creates and the client keeps a
  reference to, the exported files on disk, and the events so far (what the log
  handlers write to \<^verbatim>\<open>rd_station_sync.log\<close> and to the console is the \<open>Log\<close> events),
  and the longest sleep, in seconds, that the machine's clock takes during the run.  The
  server's answers are a sequence \<open>http :: nat \<Rightarrow> http_result\<close>: the \<open>k\<close>-th GET of the run gets \<open>http k\<close>.
\<close>

record world =
  config :: APIConfig
  files :: "path \<Rightarrow> string option"
  trace :: "event list"
  longest_sleep :: int

definition emit :: "event \<Rightarrow> world \<Rightarrow> world" where
  "emit e w = w\<lparr>trace := trace w @ [e]\<rparr>"

fun is_get :: "event \<Rightarrow> bool" where
  "is_get (HttpGet url params hdrs) = True"
| "is_get _ = False"

fun is_sleep :: "event \<Rightarrow> bool" where
  "is_sleep (Sleep d) = True"
| "is_sleep _ = False"

fun is_write :: "event \<Rightarrow> bool" where
  "is_write (FileWrite p s) = True"
| "is_write _ = False"

definition http_calls :: "event list \<Rightarrow> nat" where
  "http_calls tr = length (filter is_get tr)"

text \<open>\<^verbatim>\<open>response.raise_for_status()\<close> raises \<^verbatim>\<open>HTTPError\<close> for the statuses 400 to 599.\<close>

definition raise_for_status :: "int \<Rightarrow> bool" where
  "raise_for_status status = (400 \<le> status \<and> status < 600)"

text \<open>
  \<^verbatim>\<open>time.sleep(secs)\<close> of an int.  The length is first turned into nanoseconds in 64
  bits, which raises \<^verbatim>\<open>OverflowError\<close> beyond 9223372036 seconds either way; a negative
  length then raises \<^verbatim>\<open>ValueError\<close>; and the system call refuses a length whose deadline
  on the machine's clock does not fit (\<^verbatim>\<open>OSError\<close>): with glibc the longest sleep taken
  is 9223372036 seconds less the time the machine has been up, which the model takes as
  fixed during a run, at its value when the run ends (\<open>longest_sleep\<close>): a sleep no longer
  than that is taken at every moment of the run.  \<open>sleep_error\<close> is the exception, or
  \<open>None\<close> when the program sleeps.
\<close>

definition sleep_error :: "world \<Rightarrow> int \<Rightarrow> exn option" where
  "sleep_error w secs =
     (if secs < - 9223372036 \<or> 9223372036 < secs then Some OverflowError
      else if secs < 0 then Some ValueError
      else if longest_sleep w < secs then Some OSError
      else None)"

definition sleep :: "int \<Rightarrow> world \<Rightarrow> exn + world" where
  "sleep secs w =
     (case sleep_error w secs of Some e \<Rightarrow> Inl e | None \<Rightarrow> Inr (emit (Sleep secs) w))"

record RDStationClient =
  headers :: "(string \<times> string) list"

definition RDStationClient_init :: RDStationClient where
  "RDStationClient_init = \<lparr>headers = [(''accept'', ''application/json'')]\<rparr>"

section \<open>\<^verbatim>\<open>RDStationClient.fetch_deals\<close>\<close>

definition fetch_params :: "APIConfig \<Rightarrow> datetime \<Rightarrow> int \<Rightarrow> (string \<times> param) list" where
  "fetch_params cfg date page =
     (let start_datetime = date\<lparr>hour := 0, minute := 0, second := 1\<rparr>;
          end_datetime = date\<lparr>hour := 23, minute := 59, second := 59\<rparr>
      in [(''token'', PStr (token cfg)),
          (''created_at_period'', PBool True),
          (''start_date'', PStr (strftime_iso start_datetime)),
          (''end_date'', PStr (strftime_iso end_datetime)),
          (''page'', PInt page),
          (''per_page'', PInt (per_page cfg))])"

text \<open>
  How the \<^verbatim>\<open>try\<close> ends: it returns \<^verbatim>\<open>response.json()\<close>; or a \<^verbatim>\<open>RequestException\<close> is
  raised in it, which the \<^verbatim>\<open>except\<close> clause catches; or another exception is raised in it,
  which nothing in \<^verbatim>\<open>fetch_deals\<close> catches.
\<close>

datatype tried = Returned json | Caught | Escaped exn

text \<open>
  The body of the \<^verbatim>\<open>try\<close>.  The success line is logged before the body is decoded.  The
  \<^verbatim>\<open>JSONDecodeError\<close> that \<^verbatim>\<open>response.json()\<close> raises is a \<^verbatim>\<open>RequestException\<close> (requests
  2.27 and later); what else \<^verbatim>\<open>requests.get\<close> or the decoder raises is passed on as it is.
\<close>

definition try_get ::
  "(nat \<Rightarrow> http_result) \<Rightarrow> RDStationClient \<Rightarrow> datetime \<Rightarrow> int \<Rightarrow> (string \<times> param) list \<Rightarrow>
   world \<Rightarrow> tried \<times> world" where
  "try_get http self date page params w =
     (let w1 = emit (HttpGet (base_url (config w)) params (headers self)) w
      in case http (http_calls (trace w)) of
           RequestFailed \<Rightarrow> (Caught, w1)
         | GetError e \<Rightarrow> (Escaped e, w1)
         | Response status body \<Rightarrow>
             if raise_for_status status then (Caught, w1)
             else (case body of None \<Rightarrow> Caught | Some data \<Rightarrow> Returned data,
                   emit (Log INFO (FetchedOk date page)) w1)
         | DecoderError status e \<Rightarrow>
             if raise_for_status status then (Caught, w1)
             else (Escaped e, emit (Log INFO (FetchedOk date page)) w1))"

text \<open>
  The answers on which the \<^verbatim>\<open>try\<close> raises a \<^verbatim>\<open>RequestException\<close> (\<open>try_get\<close> gives
  \<open>Caught\<close> on exactly these), and those on which another exception leaves it.
\<close>

fun request_raises :: "http_result \<Rightarrow> bool" where
  "request_raises RequestFailed = True"
| "request_raises (GetError e) = False"
| "request_raises (Response status body) = (raise_for_status status \<or> body = None)"
| "request_raises (DecoderError status e) = raise_for_status status"

fun escapes :: "http_result \<Rightarrow> bool" where
  "escapes (GetError e) = True"
| "escapes (DecoderError status e) = (\<not> raise_for_status status)"
| "escapes _ = False"

text \<open>
  The \<^verbatim>\<open>for attempt in range(...)\<close> loop over the attempts that are left.  A loop that
  runs out of attempts falls off the end of the function, which returns \<^verbatim>\<open>None\<close>.
\<close>

fun attempts ::
  "(nat \<Rightarrow> http_result) \<Rightarrow> RDStationClient \<Rightarrow> datetime \<Rightarrow> int \<Rightarrow> (string \<times> param) list \<Rightarrow>
   int list \<Rightarrow> world \<Rightarrow> (exn + json) \<times> world" where
  "attempts http self date page params [] w = (Inr JNull, w)"
| "attempts http self date page params (attempt # rest) w =
     (case try_get http self date page params w of
        (Returned data, w1) \<Rightarrow> (Inr data, w1)
      | (Escaped e, w1) \<Rightarrow> (Inl e, w1)
      | (Caught, w1) \<Rightarrow>
          (let w2 = emit (Log WARNING (AttemptFailed (attempt + 1) date page)) w1
           in if attempt < retry_attempts (config w2) - 1
              then (let w3 = emit (Log INFO (Waiting (retry_delay (config w2)))) w2
                    in case sleep (retry_delay (config w3)) w3 of
                         Inl e \<Rightarrow> (Inl e, w3)
                       | Inr w4 \<Rightarrow> attempts http self date page params rest w4)
              else (Inr JNull, emit (Log ERROR GaveUp) w2)))"

definition fetch_deals ::
  "(nat \<Rightarrow> http_result) \<Rightarrow> RDStationClient \<Rightarrow> datetime \<Rightarrow> int \<Rightarrow> world \<Rightarrow> (exn + json) \<times> world" where
  "fetch_deals http self date page w =
     attempts http self date page (fetch_params (config w) date page)
       [0 .. retry_attempts (config w) - 1] w"

section \<open>\<^verbatim>\<open>DataExporter.save_deals\<close>\<close>

record DataExporter =
  output_dir :: path

definition DataExporter_init :: "string \<Rightarrow> DataExporter" where
  "DataExporter_init output_directory = \<lparr>output_dir = Path output_directory\<rparr>"

definition export_name :: "datetime \<Rightarrow> int \<Rightarrow> string" where
  "export_name date page = ''oportunidades_'' @ strftime_date date @ ''_p'' @ py_str page @ ''.json''"

text \<open>
  \<^verbatim>\<open>open(filename, 'w')\<close> creates the file or empties the one that is there, and
  \<^verbatim>\<open>json.dump\<close> fills it.  A disk that refuses the write (\<^verbatim>\<open>OSError\<close>) is not modelled.
\<close>

definition write_file :: "path \<Rightarrow> string \<Rightarrow> world \<Rightarrow> world" where
  "write_file filename bytes w = emit (FileWrite filename bytes) (w\<lparr>files := (files w)(filename \<mapsto> bytes)\<rparr>)"

definition save_deals ::
  "DataExporter \<Rightarrow> json \<Rightarrow> datetime \<Rightarrow> int \<Rightarrow> world \<Rightarrow> (exn + path option) \<times> world" where
  "save_deals self data date page w =
     (case py_get data ''deals'' (JList []) of
        Inl e \<Rightarrow> (Inl e, w)
      | Inr deals \<Rightarrow>
          if \<not> truthy deals then (Inr None, w)
          else (let filename = Child (output_dir self) (export_name date page)
                in (Inr (Some filename), write_file filename (json_dump data) w)))"

section \<open>The pages of one day in \<^verbatim>\<open>main\<close>\<close>

datatype control = Break | Continue

text \<open>
  The body of \<^verbatim>\<open>while True\<close> after \<^verbatim>\<open>data = client.fetch_deals(current_date, page)\<close>.
  A \<^verbatim>\<open>Path\<close> is always true, so \<^verbatim>\<open>if file_path\<close> tests for \<^verbatim>\<open>None\<close>.
\<close>

definition page_body ::
  "DataExporter \<Rightarrow> datetime \<Rightarrow> int \<Rightarrow> json \<Rightarrow> world \<Rightarrow> (exn + control) \<times> world" where
  "page_body exporter current_date page data w =
     (if \<not> truthy data then (Inr Break, w)
      else case save_deals exporter data current_date page w of
             (Inl e, w1) \<Rightarrow> (Inl e, w1)
           | (Inr None, w1) \<Rightarrow> (Inr Break, emit (Log INFO (PageEmpty page current_date)) w1)
           | (Inr (Some file_path), w1) \<Rightarrow>
               (let w2 = emit (Log INFO (PageSaved page current_date file_path)) w1
                in case py_get data ''deals'' (JList []) of
                     Inl e \<Rightarrow> (Inl e, w2)
                   | Inr deals \<Rightarrow>
                       (case py_len deals of
                          Inl e \<Rightarrow> (Inl e, w2)
                        | Inr n \<Rightarrow>
                            if n < per_page (config w2)
                            then (Inr Break, emit (Log INFO (EndOfPages current_date)) w2)
                            else (Inr Continue, w2))))"

text \<open>
  The \<^verbatim>\<open>while True\<close> loop of one day, from a page on.  It need not end (a server that
  always answers with a full page keeps it going), so its result is an option: \<open>None\<close>
  when it runs forever, \<open>Some (Inl e, w)\<close> when the exception \<open>e\<close> leaves it, and
  \<open>Some (Inr page, w)\<close> when it breaks at \<open>page\<close>.  The loop over the days around it
  (\<^verbatim>\<open>while current_date <= end_date\<close>) starts this loop at page 1 for each day in turn.
\<close>

partial_function (option) pages ::
  "(nat \<Rightarrow> http_result) \<Rightarrow> RDStationClient \<Rightarrow> DataExporter \<Rightarrow> datetime \<Rightarrow> int \<Rightarrow> world \<Rightarrow>
   ((exn + int) \<times> world) option" where
  "pages http client exporter current_date page w =
     (case fetch_deals http client current_date page w of
        (Inl e, w1) \<Rightarrow> Some (Inl e, w1)
      | (Inr data, w1) \<Rightarrow>
          (case page_body exporter current_date page data w1 of
             (Inl e, w2) \<Rightarrow> Some (Inl e, w2)
           | (Inr Break, w2) \<Rightarrow> Some (Inr page, w2)
           | (Inr Continue, w2) \<Rightarrow> pages http client exporter current_date (page + 1) w2))"

declare pages.simps [code]

section \<open>The other variants\<close>

text \<open>
  Both copies of \<^verbatim>\<open>03.GerJson - ATM(2).py\<close> have a \<^verbatim>\<open>save_deals\<close> that writes every page
  it is given and returns the path.
\<close>

definition save_deals_always ::
  "DataExporter \<Rightarrow> json \<Rightarrow> datetime \<Rightarrow> int \<Rightarrow> world \<Rightarrow> path \<times> world" where
  "save_deals_always self data date page w =
     (let filename = Child (output_dir self) (export_name date page)
      in (filename, write_file filename (json_dump data) w))"

text \<open>
  The first copy reads the records of a page of either shape:
  \<^verbatim>\<open>registros = data if isinstance(data, list) else data.get('deals', [])\<close> in \<^verbatim>\<open>main\<close>, and
  \<^verbatim>\<open>qtd = len(data) if isinstance(data, list) else len(data.get('deals', []))\<close> in
  \<^verbatim>\<open>fetch_deals\<close>.
\<close>

definition registros :: "json \<Rightarrow> exn + json" where
  "registros data = (if is_list data then Inr data else py_get data ''deals'' (JList []))"

definition qtd :: "json \<Rightarrow> exn + int" where
  "qtd data =
     (if is_list data then py_len data
      else case py_get data ''deals'' (JList []) of Inl e \<Rightarrow> Inl e | Inr deals \<Rightarrow> py_len deals)"

text \<open>
  The body of its \<^verbatim>\<open>while True\<close> after the fetch.  In
  \<^verbatim>\<open>not registros or len(registros) < config.per_page\<close> the length is taken only of
  records that are true.
\<close>

definition page_body_registros ::
  "DataExporter \<Rightarrow> datetime \<Rightarrow> int \<Rightarrow> json \<Rightarrow> world \<Rightarrow> (exn + control) \<times> world" where
  "page_body_registros exporter current_date page data w =
     (if \<not> truthy data then (Inr Break, w)
      else case save_deals_always exporter data current_date page w of
        (file_path, w1) \<Rightarrow>
          (let w2 = emit (Log INFO (Saved file_path)) w1
           in case registros data of
                Inl e \<Rightarrow> (Inl e, w2)
              | Inr rs \<Rightarrow>
                  if \<not> truthy rs then (Inr Break, emit (Log INFO (EndOfPages current_date)) w2)
                  else (case py_len rs of
                          Inl e \<Rightarrow> (Inl e, w2)
                        | Inr n \<Rightarrow>
                            if n < per_page (config w2)
                            then (Inr Break, emit (Log INFO (EndOfPages current_date)) w2)
                            else (Inr Continue, w2))))"

text \<open>
  The second copy asks the page itself:
  \<^verbatim>\<open>if not data.get("has_more", False): break\<close>.
\<close>

definition page_body_has_more ::
  "DataExporter \<Rightarrow> datetime \<Rightarrow> int \<Rightarrow> json \<Rightarrow> world \<Rightarrow> (exn + control) \<times> world" where
  "page_body_has_more exporter current_date page data w =
     (if \<not> truthy data then (Inr Break, w)
      else case save_deals_always exporter data current_date page w of
        (file_path, w1) \<Rightarrow>
          (let w2 = emit (Print (PageSaved page current_date file_path)) w1
           in case py_get data ''has_more'' (JBool False) of
                Inl e \<Rightarrow> (Inl e, w2)
              | Inr flag \<Rightarrow>
                  if \<not> truthy flag then (Inr Break, emit (Print (EndOfPages current_date)) w2)
                  else (Inr Continue, w2)))"

section \<open>What \<^verbatim>\<open>main\<close> starts from\<close>

text \<open>
  \<^verbatim>\<open>start_date = datetime(2024, 7, 30)\<close>, and the world when the loop starts: the
  configuration \<^verbatim>\<open>APIConfig(base_url=..., token=...)\<close> with the token and the files on
  disk left open, on a machine that takes a sleep of a day.
\<close>

definition start_date :: datetime where
  "start_date = \<lparr>year = 2024, month = 7, day = 30, hour = 0, minute = 0, second = 0, microsecond = 0\<rparr>"

definition main_world :: "string \<Rightarrow> (path \<Rightarrow> string option) \<Rightarrow> world" where
  "main_world tok fs =
     \<lparr>config = APIConfig_init ''https://crm.rdstation.com/api/v1/deals'' tok, files = fs, trace = [],
      longest_sleep = 86400\<rparr>"

section \<open>The world across the operations\<close>

lemma emit_simps [simp]:
  "config (emit e w) = config w"
  "files (emit e w) = files w"
  "trace (emit e w) = trace w @ [e]"
  "longest_sleep (emit e w) = longest_sleep w"
  by (simp_all add: emit_def)

lemma sleep_error_same:
  "longest_sleep w' = longest_sleep w \<Longrightarrow> sleep_error w' secs = sleep_error w secs"
  by (simp add: sleep_error_def)

lemma sleep_error_emit [simp]: "sleep_error (emit e w) secs = sleep_error w secs"
  by (simp add: sleep_error_def)

lemma try_get_world:
  assumes "try_get http self date page params w = (r, w1)"
  shows "config w1 = config w" and "files w1 = files w"
    and "\<exists>es. trace w1 = trace w @ HttpGet (base_url (config w)) params (headers self) # es \<and>
              (\<forall>e \<in> set es. \<not> is_get e \<and> \<not> is_sleep e \<and> \<not> is_write e)"
    and "longest_sleep w1 = longest_sleep w"
  using assms by (auto simp: try_get_def Let_def split: http_result.splits if_splits)

lemma attempts_config:
  "config (snd (attempts http self date page params xs w)) = config w"
proof (induction xs arbitrary: w)
  case Nil
  then show ?case by simp
next
  case (Cons attempt rest)
  show ?case
    using Cons.IH
    by (auto simp: sleep_def Let_def dest: try_get_world(1)
        split: prod.splits tried.splits option.splits)
qed

lemma attempts_longest_sleep:
  "longest_sleep (snd (attempts http self date page params xs w)) = longest_sleep w"
proof (induction xs arbitrary: w)
  case Nil
  then show ?case by simp
next
  case (Cons attempt rest)
  show ?case
    using Cons.IH
    by (auto simp: sleep_def Let_def dest: try_get_world(4)
        split: prod.splits tried.splits option.splits)
qed

lemma attempts_files:
  "files (snd (attempts http self date page params xs w)) = files w"
proof (induction xs arbitrary: w)
  case Nil
  then show ?case by simp
next
  case (Cons attempt rest)
  show ?case
    using Cons.IH
    by (auto simp: sleep_def Let_def dest: try_get_world(2)
        split: prod.splits tried.splits option.splits)
qed

lemma try_get_Escaped:
  "try_get http self date page params w = (Escaped e, w1) \<Longrightarrow>
   escapes (http (http_calls (trace w)))"
  by (cases "http (http_calls (trace w))") (auto simp: try_get_def Let_def split: if_splits option.splits)

lemma attempts_no_raise:
  assumes "sleep_error w (retry_delay (config w)) = None"
    and "\<forall>k. \<not> escapes (http k)"
  shows "\<exists>data. fst (attempts http self date page params xs w) = Inr data"
  using assms(1)
proof (induction xs arbitrary: w)
  case Nil
  then show ?case by simp
next
  case (Cons attempt rest)
  obtain r w1 where t: "try_get http self date page params w = (r, w1)"
    by (cases "try_get http self date page params w")
  note w1 = try_get_world(1,4) [OF t]
  show ?case
  proof (cases r)
    case (Returned data)
    with t show ?thesis by simp
  next
    case (Escaped e)
    with t assms(2) try_get_Escaped show ?thesis by blast
  next
    case Caught
    define w4 where "w4 = emit (Sleep (retry_delay (config w)))
     (emit (Log INFO (Waiting (retry_delay (config w))))
       (emit (Log WARNING (AttemptFailed (attempt + 1) date page)) w1))"
    have s1: "sleep_error w1 (retry_delay (config w)) = None"
      using Cons.prems sleep_error_same [OF w1(2)] by simp
    have "sleep_error w4 (retry_delay (config w4)) = None"
      using s1 w1 by (simp add: w4_def)
    from Cons.IH [OF this] obtain data where
      "fst (attempts http self date page params rest w4) = Inr data" by blast
    then show ?thesis
      using t Caught w1 s1 by (simp add: Let_def sleep_def w4_def)
  qed
qed

lemma fetch_deals_config: "config (snd (fetch_deals http self date page w)) = config w"
  by (simp add: fetch_deals_def attempts_config)

lemma fetch_deals_files: "files (snd (fetch_deals http self date page w)) = files w"
  by (simp add: fetch_deals_def attempts_files)

lemma write_file_simps [simp]:
  "config (write_file p s w) = config w"
  "files (write_file p s w) = (files w)(p \<mapsto> s)"
  "trace (write_file p s w) = trace w @ [FileWrite p s]"
  "longest_sleep (write_file p s w) = longest_sleep w"
  by (simp_all add: write_file_def)

lemma save_deals_config: "config (snd (save_deals self data date page w)) = config w"
  by (simp add: save_deals_def Let_def split: sum.splits)

lemma page_body_config: "config (snd (page_body exporter d page data w)) = config w"
proof -
  have "config (snd (save_deals exporter data d page w)) = config w"
    by (rule save_deals_config)
  then show ?thesis
    by (auto simp: page_body_def Let_def split: prod.splits sum.splits option.splits)
qed

lemma pages_config:
  assumes "pages http client exporter d page w = Some y"
  shows "config (snd y) = config w"
proof (rule pages.raw_induct
    [where P = "\<lambda>http client exporter d page w y. config (snd y) = config w", OF _ assms])
  fix pages' :: "(nat \<Rightarrow> http_result) \<Rightarrow> RDStationClient \<Rightarrow> DataExporter \<Rightarrow> datetime \<Rightarrow> int \<Rightarrow>
      world \<Rightarrow> ((exn + int) \<times> world) option"
    and http client exporter d page and w :: world and y :: "(exn + int) \<times> world"
  assume IH: "\<And>http client exporter d page (w :: world) y.
      pages' http client exporter d page w = Some y \<Longrightarrow> config (snd y) = config w"
  assume step: "(case fetch_deals http client d page w of
        (Inl e, w1) \<Rightarrow> Some (Inl e, w1)
      | (Inr data, w1) \<Rightarrow>
          (case page_body exporter d page data w1 of
             (Inl e, w2) \<Rightarrow> Some (Inl e, w2)
           | (Inr Break, w2) \<Rightarrow> Some (Inr page, w2)
           | (Inr Continue, w2) \<Rightarrow> pages' http client exporter d (page + 1) w2)) = Some y"
  obtain r1 w1 where f: "fetch_deals http client d page w = (r1, w1)"
    by (cases "fetch_deals http client d page w")
  have c1: "config w1 = config w"
    using fetch_deals_config [of http client d page w] f by simp
  show "config (snd y) = config w"
  proof (cases r1)
    case (Inl e)
    with step f c1 show ?thesis by auto
  next
    case (Inr data)
    obtain r2 w2 where b: "page_body exporter d page data w1 = (r2, w2)"
      by (cases "page_body exporter d page data w1")
    have c2: "config w2 = config w1"
      using page_body_config [of exporter d page data w1] b by simp
    show ?thesis
    proof (cases r2)
      case (Inl e)
      with step f b Inr c1 c2 show ?thesis by auto
    next
      case ctl: (Inr c)
      show ?thesis
      proof (cases c)
        case Break
        with step f b Inr ctl c1 c2 show ?thesis by auto
      next
        case Continue
        with step f b Inr ctl have "pages' http client exporter d (page + 1) w2 = Some y"
          by simp
        from IH [OF this] c1 c2 show ?thesis by simp
      qed
    qed
  qed
qed

subsection \<open>A fetch whose attempts all fail\<close>

lemma try_get_Caught_iff:
  "fst (try_get http self date page params w) = Caught \<longleftrightarrow>
   request_raises (http (http_calls (trace w)))"
  by (cases "http (http_calls (trace w))") (auto simp: try_get_def Let_def split: option.splits)

lemma try_get_fails:
  assumes "request_raises (http (http_calls (trace w)))"
  shows "\<exists>w1 es. try_get http self date page params w = (Caught, w1) \<and> config w1 = config w \<and>
     files w1 = files w \<and> longest_sleep w1 = longest_sleep w \<and>
     trace w1 = trace w @ HttpGet (base_url (config w)) params (headers self) # es \<and>
     (\<forall>e \<in> set es. \<not> is_get e \<and> \<not> is_sleep e \<and> \<not> is_write e)"
  using assms by (cases "http (http_calls (trace w))") (auto simp: try_get_def Let_def)

lemma attempts_all_fail:
  assumes "sleep_error w (retry_delay (config w)) = None"
    and "a \<le> retry_attempts (config w) - 1"
    and "\<forall>i < nat (retry_attempts (config w) - a).
           request_raises (http (http_calls (trace w) + i))"
  shows "\<exists>w'. attempts http self date page params [a .. retry_attempts (config w) - 1] w = (Inr JNull, w') \<and>
     config w' = config w \<and> files w' = files w \<and>
     filter (\<lambda>e. is_get e \<or> is_sleep e) (trace w') =
       filter (\<lambda>e. is_get e \<or> is_sleep e) (trace w) @
       concat (replicate (nat (retry_attempts (config w) - a) - 1)
          [HttpGet (base_url (config w)) params (headers self), Sleep (retry_delay (config w))]) @
       [HttpGet (base_url (config w)) params (headers self)]"
  using assms
proof (induction "nat (retry_attempts (config w) - 1 - a)" arbitrary: a w)
  case 0
  then have a: "a = retry_attempts (config w) - 1" by simp
  have "request_raises (http (http_calls (trace w)))"
    using "0.prems"(3) [rule_format, of 0] a by simp
  from try_get_fails [where http = http and w = w and self = self and date = date and page = page and params = params, OF this]
  obtain w1 es where t: "try_get http self date page params w = (Caught, w1)" "config w1 = config w"
     "files w1 = files w"
     "trace w1 = trace w @ HttpGet (base_url (config w)) params (headers self) # es"
     "\<forall>e \<in> set es. \<not> is_get e \<and> \<not> is_sleep e \<and> \<not> is_write e"
     "longest_sleep w1 = longest_sleep w"
    by blast
  have f: "filter (\<lambda>e. is_get e \<or> is_sleep e) es = []"
    using t(5) by (auto simp: filter_empty_conv)
  have u: "[a .. retry_attempts (config w) - 1] = [a]" using a by simp
  show ?case unfolding u using t(1-4) f a by (simp add: Let_def)
next
  case (Suc k)
  then have a: "a < retry_attempts (config w) - 1" by linarith
  have "request_raises (http (http_calls (trace w)))"
    using Suc.prems(3) [rule_format, of 0] a by simp
  from try_get_fails [where http = http and w = w and self = self and date = date and page = page and params = params, OF this]
  obtain w1 es where t: "try_get http self date page params w = (Caught, w1)" "config w1 = config w"
     "files w1 = files w"
     "trace w1 = trace w @ HttpGet (base_url (config w)) params (headers self) # es"
     "\<forall>e \<in> set es. \<not> is_get e \<and> \<not> is_sleep e \<and> \<not> is_write e"
     "longest_sleep w1 = longest_sleep w"
    by blast
  have f: "filter (\<lambda>e. is_get e \<or> is_sleep e) es = []" "filter is_get es = []"
    using t(5) by (auto simp: filter_empty_conv)
  define w4 where "w4 = emit (Sleep (retry_delay (config w)))
     (emit (Log INFO (Waiting (retry_delay (config w))))
       (emit (Log WARNING (AttemptFailed (a + 1) date page)) w1))"
  have c4: "config w4 = config w" "files w4 = files w" using t by (simp_all add: w4_def)
  have s1: "sleep_error w1 (retry_delay (config w)) = None"
    using Suc.prems(1) sleep_error_same [OF t(6)] by simp
  have s4: "sleep_error w4 (retry_delay (config w4)) = None"
    using s1 c4 by (simp add: w4_def)
  have calls: "http_calls (trace w4) = http_calls (trace w) + 1"
    using t(4) f by (simp add: w4_def http_calls_def)
  have u: "[a .. retry_attempts (config w) - 1] = a # [a + 1 .. retry_attempts (config w) - 1]"
    using a by (simp add: upto_rec1)
  have step: "attempts http self date page params [a .. retry_attempts (config w) - 1] w =
      attempts http self date page params [a + 1 .. retry_attempts (config w) - 1] w4"
    unfolding u using t(1,2) a s1 by (simp add: Let_def sleep_def w4_def)
  have k: "k = nat (retry_attempts (config w4) - 1 - (a + 1))" using Suc(2) c4 by simp
  have p3: "\<forall>i < nat (retry_attempts (config w4) - (a + 1)).
           request_raises (http (http_calls (trace w4) + i))"
  proof (intro allI impI)
    fix i assume "i < nat (retry_attempts (config w4) - (a + 1))"
    then have "Suc i < nat (retry_attempts (config w) - a)" using c4 by simp
    from Suc.prems(3) [rule_format, OF this] show "request_raises (http (http_calls (trace w4) + i))"
      by (simp add: calls)
  qed
  from Suc(1) [OF k s4 _ p3] a c4
  obtain w' where r: "attempts http self date page params [a + 1 .. retry_attempts (config w4) - 1] w4 = (Inr JNull, w')"
    "config w' = config w4" "files w' = files w4"
    "filter (\<lambda>e. is_get e \<or> is_sleep e) (trace w') =
       filter (\<lambda>e. is_get e \<or> is_sleep e) (trace w4) @
       concat (replicate (nat (retry_attempts (config w4) - (a + 1)) - 1)
          [HttpGet (base_url (config w4)) params (headers self), Sleep (retry_delay (config w4))]) @
       [HttpGet (base_url (config w4)) params (headers self)]"
    by auto
  have n: "nat (retry_attempts (config w) - a) - 1 = Suc (nat (retry_attempts (config w) - (a + 1)) - 1)"
    using a by simp
  have tr4: "filter (\<lambda>e. is_get e \<or> is_sleep e) (trace w4) =
      filter (\<lambda>e. is_get e \<or> is_sleep e) (trace w) @
      [HttpGet (base_url (config w)) params (headers self), Sleep (retry_delay (config w))]"
    using t(4) f by (simp add: w4_def)
  show ?case
    unfolding step n using r c4 tr4 by simp
qed

lemma filter_io_get: "filter is_get (filter (\<lambda>e. is_get e \<or> is_sleep e) xs) = filter is_get xs"
  by (induction xs) auto

lemma filter_io_sleep: "filter is_sleep (filter (\<lambda>e. is_get e \<or> is_sleep e) xs) = filter is_sleep xs"
  by (induction xs) auto

lemma gets_of_rounds:
  "filter is_get (concat (replicate k [HttpGet u ps hs, Sleep d])) = replicate k (HttpGet u ps hs)"
  by (induction k) auto

lemma sleeps_of_rounds:
  "filter is_sleep (concat (replicate k [HttpGet u ps hs, Sleep d])) = replicate k (Sleep d)"
  by (induction k) auto

lemma fetch_deals_all_fail:
  assumes "1 \<le> retry_attempts (config w)" and "sleep_error w (retry_delay (config w)) = None"
    and "\<forall>i < nat (retry_attempts (config w)). request_raises (http (http_calls (trace w) + i))"
  shows "\<exists>w'. fetch_deals http self date page w = (Inr JNull, w') \<and>
     int (length (filter is_get (trace w'))) =
       int (length (filter is_get (trace w))) + retry_attempts (config w) \<and>
     int (length (filter is_sleep (trace w'))) =
       int (length (filter is_sleep (trace w))) + (retry_attempts (config w) - 1) \<and>
     filter (\<lambda>e. is_get e \<or> is_sleep e) (trace w') =
       filter (\<lambda>e. is_get e \<or> is_sleep e) (trace w) @
       concat (replicate (nat (retry_attempts (config w)) - 1)
          [HttpGet (base_url (config w)) (fetch_params (config w) date page) (headers self),
           Sleep (retry_delay (config w))]) @
       [HttpGet (base_url (config w)) (fetch_params (config w) date page) (headers self)]"
proof -
  have a: "0 \<le> retry_attempts (config w) - 1" using assms(1) by simp
  have h: "\<forall>i < nat (retry_attempts (config w) - 0). request_raises (http (http_calls (trace w) + i))"
    using assms(3) by simp
  from attempts_all_fail [where http = http and w = w and a = 0 and self = self and date = date
      and page = page and params = "fetch_params (config w) date page", OF assms(2) a h]
  obtain w' where r: "fetch_deals http self date page w = (Inr JNull, w')"
    and io: "filter (\<lambda>e. is_get e \<or> is_sleep e) (trace w') =
       filter (\<lambda>e. is_get e \<or> is_sleep e) (trace w) @
       concat (replicate (nat (retry_attempts (config w)) - 1)
          [HttpGet (base_url (config w)) (fetch_params (config w) date page) (headers self),
           Sleep (retry_delay (config w))]) @
       [HttpGet (base_url (config w)) (fetch_params (config w) date page) (headers self)]"
    by (auto simp: fetch_deals_def)
  have "filter is_get (trace w') = filter is_get (filter (\<lambda>e. is_get e \<or> is_sleep e) (trace w'))"
    by (simp only: filter_io_get)
  also have "\<dots> = filter is_get (trace w) @
      replicate (nat (retry_attempts (config w)) - 1)
        (HttpGet (base_url (config w)) (fetch_params (config w) date page) (headers self)) @
      [HttpGet (base_url (config w)) (fetch_params (config w) date page) (headers self)]"
    unfolding io by (simp only: filter_append filter_io_get gets_of_rounds) simp
  finally have g: "int (length (filter is_get (trace w'))) =
       int (length (filter is_get (trace w))) + retry_attempts (config w)"
    using assms(1) by simp
  have "filter is_sleep (trace w') = filter is_sleep (filter (\<lambda>e. is_get e \<or> is_sleep e) (trace w'))"
    by (simp only: filter_io_sleep)
  also have "\<dots> = filter is_sleep (trace w) @
      replicate (nat (retry_attempts (config w)) - 1) (Sleep (retry_delay (config w)))"
    unfolding io by (simp only: filter_append filter_io_sleep sleeps_of_rounds) simp
  finally have s: "int (length (filter is_sleep (trace w'))) =
       int (length (filter is_sleep (trace w))) + (retry_attempts (config w) - 1)"
    using assms(1) by simp
  from r g s io show ?thesis by blast
qed

lemma fetch_no_attempts:
  "retry_attempts (config w) \<le> 0 \<Longrightarrow> fetch_deals http self date page w = (Inr JNull, w)"
  by (simp add: fetch_deals_def)

subsection \<open>The text of numbers and the GETs of a fetch\<close>

lemma digit_decimal: "n < 10 \<Longrightarrow> digit n \<in> set ''0123456789''"
proof -
  assume n: "n < 10"
  have t: "take 10 ''0123456789abcdef'' = ''0123456789''" by simp
  have "digit n = take 10 ''0123456789abcdef'' ! n"
    unfolding digit_def using n by (rule nth_take [symmetric])
  then have d: "digit n = ''0123456789'' ! n" by (simp only: t)
  have "n < length ''0123456789''" using n by simp
  from nth_mem [OF this] d show ?thesis by (simp only:)
qed

lemma decimal_digits: "set (decimal n) \<subseteq> set ''0123456789''"
proof (induction n rule: decimal.induct)
  case (1 n)
  show ?case
  proof (cases "n < 10")
    case True
    then show ?thesis using digit_decimal [of n] by (subst decimal.simps) simp
  next
    case False
    have "n mod 10 < 10" by simp
    from digit_decimal [OF this] 1 [OF False] False show ?thesis
      by (subst decimal.simps) simp
  qed
qed

lemma length_decimal: "0 < k \<Longrightarrow> n < 10 ^ k \<Longrightarrow> length (decimal n) \<le> k"
proof (induction k arbitrary: n)
  case 0
  then show ?case by simp
next
  case (Suc k)
  show ?case
  proof (cases "n < 10")
    case True
    then show ?thesis by (subst decimal.simps) simp
  next
    case False
    with Suc.prems have k: "0 < k" by (cases k) auto
    have "n div 10 < 10 ^ k" using Suc.prems(2) by (simp add: less_mult_imp_div_less mult.commute)
    from Suc.IH [OF k this] False show ?thesis by (subst decimal.simps) simp
  qed
qed

lemma length_decimal_year: "1000 \<le> n \<Longrightarrow> n \<le> 9999 \<Longrightarrow> length (decimal n) = 4"
proof -
  assume a: "1000 \<le> n" "n \<le> 9999"
  have 1: "\<not> n < 10" "\<not> n div 10 < 10" "\<not> n div 10 div 10 < 10" "n div 10 div 10 div 10 < 10"
    using a by simp_all
  show ?thesis
    by (simp add: decimal.simps [of n] decimal.simps [of "n div 10"]
        decimal.simps [of "n div 10 div 10"] decimal.simps [of "n div 10 div 10 div 10"] 1)
qed

lemma length_zero_pad: "0 < k \<Longrightarrow> n < 10 ^ k \<Longrightarrow> length (zero_pad k n) = k"
  using length_decimal [of k n] by (simp add: zero_pad_def)

lemma zero_pad_digits: "set (zero_pad k n) \<subseteq> set ''0123456789''"
  using decimal_digits [of n] by (auto simp: zero_pad_def)

lemma zero_pad_small [simp]:
  "zero_pad 2 0 = ''00''" "zero_pad 2 (Suc 0) = ''01''" "zero_pad 2 23 = ''23''" "zero_pad 2 59 = ''59''"
  by (simp_all add: zero_pad_def decimal.simps digit_def)

lemma attempts_gets:
  "\<exists>k. (xs \<noteq> [] \<longrightarrow> 1 \<le> k) \<and>
     filter is_get (trace (snd (attempts http self date page params xs w))) =
     filter is_get (trace w) @ replicate k (HttpGet (base_url (config w)) params (headers self))"
proof (induction xs arbitrary: w)
  case Nil
  show ?case by (rule exI [of _ 0]) simp
next
  case (Cons attempt rest)
  obtain r w1 where t: "try_get http self date page params w = (r, w1)"
    by (cases "try_get http self date page params w")
  from try_get_world [OF t] obtain es where w1: "config w1 = config w"
    "trace w1 = trace w @ HttpGet (base_url (config w)) params (headers self) # es"
    "\<forall>e \<in> set es. \<not> is_get e \<and> \<not> is_sleep e \<and> \<not> is_write e" by blast
  have f: "filter is_get es = []" using w1(3) by (auto simp: filter_empty_conv)
  have one: "filter is_get (trace w1) =
     filter is_get (trace w) @ replicate 1 (HttpGet (base_url (config w)) params (headers self))"
    using w1(2) f by simp
  define w4 where "w4 = emit (Sleep (retry_delay (config w)))
     (emit (Log INFO (Waiting (retry_delay (config w))))
       (emit (Log WARNING (AttemptFailed (attempt + 1) date page)) w1))"
  have c4: "config w4 = config w" by (simp add: w4_def w1)
  have g4: "filter is_get (trace w4) =
       filter is_get (trace w) @ [HttpGet (base_url (config w)) params (headers self)]"
    using one by (simp add: w4_def)
  from Cons.IH [of w4] obtain k where k:
      "filter is_get (trace (snd (attempts http self date page params rest w4))) =
       filter is_get (trace w4) @ replicate k (HttpGet (base_url (config w4)) params (headers self))"
    by blast
  show ?case
  proof (cases "r = Caught \<and> attempt < retry_attempts (config w) - 1 \<and>
      sleep_error w1 (retry_delay (config w)) = None")
    case True
    then have "attempts http self date page params (attempt # rest) w =
          attempts http self date page params rest w4"
      using t w1(1) by (simp add: Let_def sleep_def w4_def)
    with k g4 c4 show ?thesis by (intro exI [of _ "Suc k"]) simp
  next
    case False
    then have "filter is_get (trace (snd (attempts http self date page params (attempt # rest) w))) =
          filter is_get (trace w1)"
      using t w1(1) by (cases r) (auto simp: Let_def sleep_def split: option.splits)
    with one show ?thesis by (intro exI [of _ 1]) simp
  qed
qed

lemma fetch_deals_gets:
  "\<exists>k. (1 \<le> retry_attempts (config w) \<longrightarrow> 1 \<le> k) \<and>
     filter is_get (trace (snd (fetch_deals http self date page w))) =
     filter is_get (trace w) @
     replicate k (HttpGet (base_url (config w)) (fetch_params (config w) date page) (headers self))"
proof -
  have "1 \<le> retry_attempts (config w) \<Longrightarrow> [0 .. retry_attempts (config w) - 1] \<noteq> []"
    by (simp add: upto_rec1)
  then show ?thesis
    unfolding fetch_deals_def
    using attempts_gets [of "[0 .. retry_attempts (config w) - 1]" http self date page
        "fetch_params (config w) date page" w]
    by blast
qed

lemma strftime_date_replace [simp]:
  "strftime_date (d\<lparr>hour := h, minute := m, second := s\<rparr>) = strftime_date d"
  by (simp add: strftime_date_def)

subsection \<open>One turn of the page loop\<close>

lemma page_body_no_get:
  "filter is_get (trace (snd (page_body exporter date page data w))) = filter is_get (trace w)"
  by (auto simp: page_body_def save_deals_def Let_def split: sum.splits option.splits)

subsection \<open>The first GET of a fetch, and pages with a flag set\<close>

lemma attempts_trace_grows:
  "\<exists>es. trace (snd (attempts http self date page params xs w)) = trace w @ es"
proof (induction xs arbitrary: w)
  case Nil
  show ?case by simp
next
  case (Cons attempt rest)
  obtain r w1 where t: "try_get http self date page params w = (r, w1)"
    by (cases "try_get http self date page params w")
  from try_get_world(3) [OF t] obtain es where w1: "trace w1 = trace w @ HttpGet (base_url (config w)) params (headers self) # es"
    by blast
  define w4 where "w4 = emit (Sleep (retry_delay (config w1)))
     (emit (Log INFO (Waiting (retry_delay (config w1))))
       (emit (Log WARNING (AttemptFailed (attempt + 1) date page)) w1))"
  from Cons.IH [of w4] obtain es4 where
    e4: "trace (snd (attempts http self date page params rest w4)) = trace w4 @ es4" by blast
  have "\<exists>es'. trace (snd (attempts http self date page params (attempt # rest) w)) = trace w1 @ es'"
    using t e4 by (cases r) (auto simp: Let_def sleep_def w4_def split: option.splits)
  then show ?case using w1 by auto
qed

lemma attempts_first_get:
  "\<exists>es. trace (snd (attempts http self date page params (attempt # rest) w)) =
     trace w @ HttpGet (base_url (config w)) params (headers self) # es"
proof -
  obtain r w1 where t: "try_get http self date page params w = (r, w1)"
    by (cases "try_get http self date page params w")
  from try_get_world(3) [OF t] obtain es where w1: "trace w1 = trace w @ HttpGet (base_url (config w)) params (headers self) # es"
    by blast
  define w4 where "w4 = emit (Sleep (retry_delay (config w1)))
     (emit (Log INFO (Waiting (retry_delay (config w1))))
       (emit (Log WARNING (AttemptFailed (attempt + 1) date page)) w1))"
  from attempts_trace_grows [of http self date page params rest w4] obtain es4 where
    e4: "trace (snd (attempts http self date page params rest w4)) = trace w4 @ es4" by blast
  have "\<exists>es'. trace (snd (attempts http self date page params (attempt # rest) w)) = trace w1 @ es'"
    using t e4 by (cases r) (auto simp: Let_def sleep_def w4_def split: option.splits)
  then show ?thesis using w1 by auto
qed

lemma fetch_deals_first_get:
  assumes "1 \<le> retry_attempts (config w)"
  shows "\<exists>es. trace (snd (fetch_deals http self date page w)) =
     trace w @ HttpGet (base_url (config w)) (fetch_params (config w) date page) (headers self) # es"
proof -
  have "[0 .. retry_attempts (config w) - 1] = 0 # [0 + 1 .. retry_attempts (config w) - 1]"
    using assms by (simp add: upto_rec1)
  then show ?thesis
    unfolding fetch_deals_def using attempts_first_get by simp
qed

lemma py_len_pos_truthy: "py_len v = Inr n \<Longrightarrow> 0 < n \<Longrightarrow> truthy v"
  by (cases v) (auto simp: code_points_def)

lemma update_not_Nil: "AList.update k v al \<noteq> []"
  by (cases al) auto

section \<open>Runs on concrete inputs\<close>

text \<open>
  A server that never answers: the first fetch of \<^verbatim>\<open>main\<close> gives up after its three
  attempts and the day ends at page 1.
\<close>

lemma pages_no_answer:
  "\<exists>y. pages (\<lambda>k. RequestFailed) RDStationClient_init (DataExporter_init ''out'') start_date 1
          (main_world ''t'' Map.empty) = Some y"
  apply (subst pages.simps)
  apply (simp add: fetch_deals_def main_world_def APIConfig_init_def try_get_def http_calls_def
      sleep_def sleep_error_def page_body_def Let_def upto.simps)
  done

text \<open>A server whose first answer is a 200 response with a body that decodes.\<close>

lemma fetch_first_answer:
  "\<exists>w1. fetch_deals (\<lambda>k. Response 200 (Some body)) RDStationClient_init start_date 1
          (main_world ''t'' Map.empty) = (Inr body, w1)"
  by (simp add: fetch_deals_def main_world_def APIConfig_init_def try_get_def http_calls_def
      raise_for_status_def Let_def upto.simps)

text \<open>
  \<^verbatim>\<open>raise_for_status\<close> lets a 304 through: the body of such a response is returned as
  the page.
\<close>

lemma fetch_status_304:
  "fst (fetch_deals (\<lambda>k. Response 304 (Some (JObj [(''deals'', JList [])]))) RDStationClient_init
      start_date 1 (main_world ''t'' Map.empty)) = Inr (JObj [(''deals'', JList [])])"
  by (simp add: fetch_deals_def try_get_def http_calls_def raise_for_status_def Let_def
      main_world_def APIConfig_init_def upto.simps)

section \<open>The claims\<close>

text \<open>
  C1.  For every date and page, when the fetch returns a page whose \<^verbatim>\<open>deals\<close> have
  length \<open>n\<close>, under a page size of at least 1 (that of \<^verbatim>\<open>main\<close> is 200): if \<open>n\<close> is below
  the page size, the page loop of the day ends at this page, and no GET is made after
  those of this fetch; if \<open>n\<close> is the page size, the turn of the loop continues, the loop
  goes on from \<open>page + 1\<close>, and the next thing the program does is a GET for \<open>page + 1\<close>
  of the same date.
\<close>

theorem page_size_decides:
  assumes "fetch_deals http client date page w = (Inr data, w1)"
    and "py_get data ''deals'' (JList []) = Inr deals" and "py_len deals = Inr n"
    and "1 \<le> per_page (config w)"
  shows "(n < per_page (config w) \<longrightarrow>
           (\<exists>w2. pages http client exporter date page w = Some (Inr page, w2) \<and>
                 filter is_get (trace w2) = filter is_get (trace w1))) \<and>
         (n = per_page (config w) \<longrightarrow>
           (\<exists>w2 es. page_body exporter date page data w1 = (Inr Continue, w2) \<and>
              pages http client exporter date page w =
                pages http client exporter date (page + 1) w2 \<and>
              trace (snd (fetch_deals http client date (page + 1) w2)) =
                trace w2 @ HttpGet (base_url (config w)) (fetch_params (config w) date (page + 1))
                  (headers client) # es))"
proof (intro conjI impI)
  have c1: "config w1 = config w"
    using fetch_deals_config [of http client date page w] assms(1) by simp
  obtain r2 w2 where b: "page_body exporter date page data w1 = (r2, w2)"
    by (cases "page_body exporter date page data w1")
  have g2: "filter is_get (trace w2) = filter is_get (trace w1)"
    using page_body_no_get [of exporter date page data w1] b by simp
  have c2: "config w2 = config w"
    using page_body_config [of exporter date page data w1] b c1 by simp
  {
    assume "n < per_page (config w)"
    then have "r2 = Inr Break"
      using b assms(2,3) c1
      by (auto simp: page_body_def save_deals_def Let_def split: if_splits)
    then have "pages http client exporter date page w = Some (Inr page, w2)"
      using assms(1) b by (subst pages.simps) simp
    with g2 show "\<exists>w2. pages http client exporter date page w = Some (Inr page, w2) \<and>
                 filter is_get (trace w2) = filter is_get (trace w1)" by blast
  }
  {
    assume h: "n = per_page (config w)"
    have pos: "0 < n" using h assms(4) by simp
    have td: "truthy deals" using py_len_pos_truthy [OF assms(3) pos] .
    have tdata: "truthy data"
    proof (cases data)
      case (JObj kvs)
      show ?thesis
      proof (cases "kvs = []")
        case True
        with JObj assms(2,3) pos show ?thesis by auto
      next
        case False
        with JObj show ?thesis by simp
      qed
    qed (use assms(2) in auto)
    have r2: "r2 = Inr Continue"
      using b assms(2,3) c1 h td tdata
      by (auto simp: page_body_def save_deals_def Let_def split: if_splits)
    have p: "pages http client exporter date page w =
                pages http client exporter date (page + 1) w2"
      using assms(1) b r2 by (subst pages.simps) simp
    have "1 \<le> retry_attempts (config w)"
    proof (rule ccontr)
      assume "\<not> 1 \<le> retry_attempts (config w)"
      then have "fetch_deals http client date page w = (Inr JNull, w)"
        by (simp add: fetch_no_attempts)
      with assms(1,2) show False by simp
    qed
    then have "1 \<le> retry_attempts (config w2)" using c2 by simp
    from fetch_deals_first_get [OF this, of http client date "page + 1"] c2
    obtain es where "trace (snd (fetch_deals http client date (page + 1) w2)) =
                trace w2 @ HttpGet (base_url (config w)) (fetch_params (config w) date (page + 1))
                  (headers client) # es" by auto
    with b r2 p show "\<exists>w2 es. page_body exporter date page data w1 = (Inr Continue, w2) \<and>
              pages http client exporter date page w =
                pages http client exporter date (page + 1) w2 \<and>
              trace (snd (fetch_deals http client date (page + 1) w2)) =
                trace w2 @ HttpGet (base_url (config w)) (fetch_params (config w) date (page + 1))
                  (headers client) # es" by blast
  }
qed

text \<open>
  With the configuration of \<^verbatim>\<open>main\<close> (200 deals a page): a first page of one deal ends the
  day, and after a first page of 200 deals the next GET asks for page 2.
\<close>

theorem page_size_decides_witness:
  "(\<exists>w2. pages (\<lambda>k. Response 200 (Some (JObj [(''deals'', JList [JInt 7])]))) RDStationClient_init
       (DataExporter_init ''out'') start_date 1 (main_world ''t'' Map.empty) = Some (Inr 1, w2)) \<and>
   (\<exists>w1 w2 es.
      fetch_deals (\<lambda>k. Response 200 (Some (JObj [(''deals'', JList (replicate 200 (JInt 7)))])))
        RDStationClient_init start_date 1 (main_world ''t'' Map.empty) =
        (Inr (JObj [(''deals'', JList (replicate 200 (JInt 7)))]), w1) \<and>
      page_body (DataExporter_init ''out'') start_date 1
        (JObj [(''deals'', JList (replicate 200 (JInt 7)))]) w1 = (Inr Continue, w2) \<and>
      trace (snd (fetch_deals (\<lambda>k. Response 200 (Some (JObj [(''deals'', JList (replicate 200 (JInt 7)))])))
        RDStationClient_init start_date (1 + 1) w2)) =
        trace w2 @ HttpGet ''https://crm.rdstation.com/api/v1/deals''
          (fetch_params (config (main_world ''t'' Map.empty)) start_date (1 + 1))
          (headers RDStationClient_init) # es)"
proof -
  have pp: "per_page (config (main_world ''t'' Map.empty)) = 200"
    and url: "base_url (config (main_world ''t'' Map.empty)) = ''https://crm.rdstation.com/api/v1/deals''"
    by (simp_all add: main_world_def APIConfig_init_def)
  have p1: "1 \<le> per_page (config (main_world ''t'' Map.empty))" using pp by simp
  obtain w1 where f1: "fetch_deals (\<lambda>k. Response 200 (Some (JObj [(''deals'', JList [JInt 7])])))
      RDStationClient_init start_date 1 (main_world ''t'' Map.empty) =
      (Inr (JObj [(''deals'', JList [JInt 7])]), w1)"
    using fetch_first_answer by blast
  have d1: "py_get (JObj [(''deals'', JList [JInt 7])]) ''deals'' (JList []) = Inr (JList [JInt 7])"
    and l1: "py_len (JList [JInt 7]) = Inr 1" by simp_all
  from page_size_decides [OF f1 d1 l1 p1, of "DataExporter_init ''out''"] pp
  have a: "\<exists>w2. pages (\<lambda>k. Response 200 (Some (JObj [(''deals'', JList [JInt 7])]))) RDStationClient_init
       (DataExporter_init ''out'') start_date 1 (main_world ''t'' Map.empty) = Some (Inr 1, w2)"
    by auto
  obtain v1 where f2: "fetch_deals (\<lambda>k. Response 200 (Some (JObj [(''deals'', JList (replicate 200 (JInt 7)))])))
      RDStationClient_init start_date 1 (main_world ''t'' Map.empty) =
      (Inr (JObj [(''deals'', JList (replicate 200 (JInt 7)))]), v1)"
    using fetch_first_answer by blast
  have d2: "py_get (JObj [(''deals'', JList (replicate 200 (JInt 7)))]) ''deals'' (JList []) =
      Inr (JList (replicate 200 (JInt 7)))"
    and l2: "py_len (JList (replicate 200 (JInt 7))) = Inr 200" by simp_all
  from page_size_decides [OF f2 d2 l2 p1, of "DataExporter_init ''out''"] pp url
  obtain v2 es where "page_body (DataExporter_init ''out'') start_date 1
        (JObj [(''deals'', JList (replicate 200 (JInt 7)))]) v1 = (Inr Continue, v2)"
     "trace (snd (fetch_deals (\<lambda>k. Response 200 (Some (JObj [(''deals'', JList (replicate 200 (JInt 7)))])))
        RDStationClient_init start_date (1 + 1) v2)) =
        trace v2 @ HttpGet ''https://crm.rdstation.com/api/v1/deals''
          (fetch_params (config (main_world ''t'' Map.empty)) start_date (1 + 1))
          (headers RDStationClient_init) # es"
    by auto
  with f2 a show ?thesis by blast
qed

text \<open>
  C2, as the code has it.  The variant that accepts both shapes reads the same record
  list from a bare list and from an object whose \<^verbatim>\<open>deals\<close> field holds that list
  (\<open>registros\<close> in its \<^verbatim>\<open>main\<close>, \<open>qtd\<close> in its \<^verbatim>\<open>fetch_deals\<close>).  The exporter of
  \<^verbatim>\<open>exporta_oportunidades_rdstation.py\<close> reads the list of an object only
  (\<^verbatim>\<open>data.get("deals", [])\<close>): it returns a path when the list is not empty and \<^verbatim>\<open>None\<close>
  when it is, and on a bare list it raises \<^verbatim>\<open>AttributeError\<close> and writes nothing.
\<close>

theorem record_list_of_both_shapes:
  "registros (JList rs) = Inr (JList rs) \<and>
   qtd (JList rs) = Inr (int (length rs)) \<and>
   save_deals self (JList rs) date page w = (Inl AttributeError, w) \<and>
   (map_of kvs ''deals'' = Some (JList rs) \<longrightarrow>
      registros (JObj kvs) = Inr (JList rs) \<and>
      qtd (JObj kvs) = Inr (int (length rs)) \<and>
      py_get (JObj kvs) ''deals'' (JList []) = Inr (JList rs) \<and>
      fst (save_deals self (JObj kvs) date page w) =
        Inr (if rs = [] then None else Some (Child (output_dir self) (export_name date page))))"
  by (simp add: registros_def qtd_def save_deals_def Let_def)

text \<open>An object with a second field, and the bare list of its deals.\<close>

theorem record_list_of_both_shapes_witness:
  "registros (JObj [(''total'', JInt 1), (''deals'', JList [JObj [(''id'', JStr ''a'')]])]) =
     registros (JList [JObj [(''id'', JStr ''a'')]]) \<and>
   qtd (JObj [(''total'', JInt 1), (''deals'', JList [JObj [(''id'', JStr ''a'')]])]) = Inr 1 \<and>
   fst (save_deals (DataExporter_init ''out'')
     (JObj [(''total'', JInt 1), (''deals'', JList [JObj [(''id'', JStr ''a'')]])]) start_date 1
     (main_world ''t'' Map.empty)) =
     Inr (Some (Child (Path ''out'') (export_name start_date 1)))"
proof -
  have m: "map_of [(''total'', JInt 1), (''deals'', JList [JObj [(''id'', JStr ''a'')]])] ''deals'' =
      Some (JList [JObj [(''id'', JStr ''a'')]])" by simp
  from record_list_of_both_shapes [of "[JObj [(''id'', JStr ''a'')]]" "DataExporter_init ''out''"
      start_date 1 "main_world ''t'' Map.empty"
      "[(''total'', JInt 1), (''deals'', JList [JObj [(''id'', JStr ''a'')]])]"] m
  show ?thesis by (simp add: DataExporter_init_def)
qed

text \<open>
  C2 as the specification words it fails: the exporter does not extract the records of a
  bare list, it raises; the same records inside an object are exported.
\<close>

theorem record_list_of_both_shapes_counterexample:
  "save_deals (DataExporter_init ''out'') (JList [JObj [(''id'', JStr ''a'')]]) start_date 1
     (main_world ''t'' Map.empty) = (Inl AttributeError, main_world ''t'' Map.empty) \<and>
   fst (save_deals (DataExporter_init ''out'') (JObj [(''deals'', JList [JObj [(''id'', JStr ''a'')]])])
     start_date 1 (main_world ''t'' Map.empty)) =
     Inr (Some (Child (Path ''out'') (export_name start_date 1)))"
  by (simp add: save_deals_def DataExporter_init_def Let_def)




text \<open>
  C4.  For every page whose \<^verbatim>\<open>deals\<close> are empty, \<^verbatim>\<open>save_deals\<close> returns \<^verbatim>\<open>None\<close> and leaves
  the world as it was (no file is written), and when a fetch returns such a page the page
  loop of the day ends there without an exception and without a file written: the
  world after the loop is the world after the fetch, or that with the line logged for
  an empty page.
\<close>

theorem empty_page_skipped:
  assumes "py_get data ''deals'' (JList []) = Inr deals" and "\<not> truthy deals"
  shows "save_deals exporter data date page w = (Inr None, w) \<and>
     (\<forall>w1. fetch_deals http client date page w = (Inr data, w1) \<longrightarrow>
        (\<exists>w2. pages http client exporter date page w = Some (Inr page, w2) \<and>
              files w2 = files w \<and>
              (w2 = w1 \<or> w2 = emit (Log INFO (PageEmpty page date)) w1)))"
proof (intro conjI allI impI)
  show "save_deals exporter data date page w = (Inr None, w)"
    using assms by (simp add: save_deals_def)
next
  fix w1
  assume f: "fetch_deals http client date page w = (Inr data, w1)"
  have fs: "files w1 = files w"
    using fetch_deals_files [of http client date page w] f by simp
  have b: "page_body exporter date page data w1 = (Inr Break, w1) \<or>
      page_body exporter date page data w1 = (Inr Break, emit (Log INFO (PageEmpty page date)) w1)"
    using assms by (simp add: page_body_def save_deals_def)
  then show "\<exists>w2. pages http client exporter date page w = Some (Inr page, w2) \<and>
              files w2 = files w \<and>
              (w2 = w1 \<or> w2 = emit (Log INFO (PageEmpty page date)) w1)"
    using f fs by (subst pages.simps) auto
qed

text \<open>A server that answers the first page of the first day with no deals.\<close>

theorem empty_page_skipped_witness:
  "save_deals (DataExporter_init ''out'') (JObj [(''deals'', JList [])]) start_date 1
     (main_world ''t'' Map.empty) = (Inr None, main_world ''t'' Map.empty) \<and>
   (\<exists>w2. pages (\<lambda>k. Response 200 (Some (JObj [(''deals'', JList [])]))) RDStationClient_init
          (DataExporter_init ''out'') start_date 1 (main_world ''t'' Map.empty) = Some (Inr 1, w2) \<and>
        files w2 = Map.empty)"
proof -
  have d: "py_get (JObj [(''deals'', JList [])]) ''deals'' (JList []) = Inr (JList [])"
    and t: "\<not> truthy (JList [])" by simp_all
  note c4 = empty_page_skipped [OF d t, of "DataExporter_init ''out''" start_date 1
      "main_world ''t'' Map.empty"
      "\<lambda>k. Response 200 (Some (JObj [(''deals'', JList [])]))" RDStationClient_init]
  obtain w1 where "fetch_deals (\<lambda>k. Response 200 (Some (JObj [(''deals'', JList [])])))
      RDStationClient_init start_date 1 (main_world ''t'' Map.empty) =
      (Inr (JObj [(''deals'', JList [])]), w1)"
    using fetch_first_answer by blast
  with c4 have "\<exists>w2. pages (\<lambda>k. Response 200 (Some (JObj [(''deals'', JList [])])))
      RDStationClient_init (DataExporter_init ''out'') start_date 1 (main_world ''t'' Map.empty) =
      Some (Inr 1, w2) \<and> files w2 = files (main_world ''t'' Map.empty)"
    by blast
  with c4 show ?thesis by (simp add: main_world_def)
qed

text \<open>
  C5, as the code has it.  In \<^verbatim>\<open>exporta_oportunidades_rdstation.py\<close> the page loop goes on
  to \<open>page + 1\<close> exactly when the page and its \<^verbatim>\<open>deals\<close> are not empty and the number of
  deals is at least the page size; setting or changing a \<^verbatim>\<open>has_more\<close> field of the page
  changes nothing in that decision, there and in the variant that accepts both shapes.
  (The other variant decides on \<^verbatim>\<open>has_more\<close> alone: see the counterexample.)
\<close>

theorem page_count_decides:
  "(fst (page_body exporter date page data w) = Inr Continue \<longleftrightarrow>
      truthy data \<and>
      (\<exists>deals n. py_get data ''deals'' (JList []) = Inr deals \<and> truthy deals \<and>
         py_len deals = Inr n \<and> per_page (config w) \<le> n)) \<and>
   fst (page_body exporter date page (JObj (AList.update ''has_more'' flag kvs)) w) =
     fst (page_body exporter date page (JObj kvs) w) \<and>
   fst (page_body_registros exporter date page (JObj (AList.update ''has_more'' flag kvs)) w) =
     fst (page_body_registros exporter date page (JObj kvs) w)"
proof (intro conjI)
  show "fst (page_body exporter date page data w) = Inr Continue \<longleftrightarrow>
      truthy data \<and>
      (\<exists>deals n. py_get data ''deals'' (JList []) = Inr deals \<and> truthy deals \<and>
         py_len deals = Inr n \<and> per_page (config w) \<le> n)"
    by (auto simp: page_body_def save_deals_def Let_def split: sum.splits)
  show "fst (page_body exporter date page (JObj (AList.update ''has_more'' flag kvs)) w) =
     fst (page_body exporter date page (JObj kvs) w)"
    by (cases "kvs = []")
      (auto simp: page_body_def save_deals_def Let_def update_conv' update_not_Nil split: sum.splits option.splits)
  show "fst (page_body_registros exporter date page (JObj (AList.update ''has_more'' flag kvs)) w) =
     fst (page_body_registros exporter date page (JObj kvs) w)"
    by (cases "kvs = []")
      (auto simp: page_body_registros_def save_deals_always_def registros_def Let_def update_conv'
         update_not_Nil split: sum.splits option.splits)
qed

text \<open>
  Two pages with the same single deal, one with the flag set and one with it cleared: in
  \<^verbatim>\<open>exporta_oportunidades_rdstation.py\<close> both end the day.
\<close>

theorem page_count_decides_witness:
  "fst (page_body (DataExporter_init ''out'') start_date 1
     (JObj [(''deals'', JList [JInt 7]), (''has_more'', JBool True)]) (main_world ''t'' Map.empty)) =
   fst (page_body (DataExporter_init ''out'') start_date 1
     (JObj [(''deals'', JList [JInt 7]), (''has_more'', JBool False)]) (main_world ''t'' Map.empty)) \<and>
   fst (page_body (DataExporter_init ''out'') start_date 1
     (JObj [(''deals'', JList [JInt 7]), (''has_more'', JBool True)]) (main_world ''t'' Map.empty)) \<noteq>
     Inr Continue"
proof -
  have u: "AList.update ''has_more'' (JBool False) [(''deals'', JList [JInt 7]), (''has_more'', JBool True)] =
      [(''deals'', JList [JInt 7]), (''has_more'', JBool False)]"
    by simp
  note t = page_count_decides [of "DataExporter_init ''out''" start_date 1
      "JObj [(''deals'', JList [JInt 7]), (''has_more'', JBool True)]" "main_world ''t'' Map.empty"
      "JBool False" "[(''deals'', JList [JInt 7]), (''has_more'', JBool True)]"]
  have a: "fst (page_body (DataExporter_init ''out'') start_date 1
     (JObj [(''deals'', JList [JInt 7]), (''has_more'', JBool True)]) (main_world ''t'' Map.empty)) =
   fst (page_body (DataExporter_init ''out'') start_date 1
     (JObj [(''deals'', JList [JInt 7]), (''has_more'', JBool False)]) (main_world ''t'' Map.empty))"
    using t [THEN conjunct2, THEN conjunct1] unfolding u by simp
  have "\<not> (\<exists>deals n. py_get (JObj [(''deals'', JList [JInt 7]), (''has_more'', JBool True)]) ''deals'' (JList []) =
      Inr deals \<and> truthy deals \<and> py_len deals = Inr n \<and> per_page (config (main_world ''t'' Map.empty)) \<le> n)"
    by (auto simp: main_world_def APIConfig_init_def)
  with t [THEN conjunct1] have b: "fst (page_body (DataExporter_init ''out'') start_date 1
     (JObj [(''deals'', JList [JInt 7]), (''has_more'', JBool True)]) (main_world ''t'' Map.empty)) \<noteq>
     Inr Continue" by blast
  from a b show ?thesis by blast
qed

text \<open>
  C5 as the specification words it fails for the variant that tests
  \<^verbatim>\<open>data.get("has_more", False)\<close>: the same two pages, with one deal each and so far
  below the page size of 200, continue or stop as the flag says.
\<close>

theorem page_count_decides_counterexample:
  "fst (page_body_has_more (DataExporter_init ''out'') start_date 1
     (JObj [(''deals'', JList [JInt 7]), (''has_more'', JBool True)]) (main_world ''t'' Map.empty)) =
     Inr Continue \<and>
   fst (page_body_has_more (DataExporter_init ''out'') start_date 1
     (JObj [(''deals'', JList [JInt 7]), (''has_more'', JBool False)]) (main_world ''t'' Map.empty)) =
     Inr Break \<and>
   py_len (JList [JInt 7]) = Inr 1 \<and> per_page (config (main_world ''t'' Map.empty)) = 200"
  by (simp add: page_body_has_more_def save_deals_always_def Let_def main_world_def APIConfig_init_def)

text \<open>
  C6.  For every page whose \<^verbatim>\<open>deals\<close> are not empty, every date and page number:
  \<^verbatim>\<open>save_deals\<close> writes the page to \<^verbatim>\<open>output_dir / oportunidades_YYYY-MM-DD_pN.json\<close>,
  whatever was at that path before, and a second call with the same arguments returns
  the same path and leaves every file, that one included, with the bytes of the first
  call.
\<close>

theorem save_deals_idempotent:
  assumes "py_get data ''deals'' (JList []) = Inr deals" and "truthy deals"
  shows "\<exists>w1 w2.
     save_deals self data date page w =
       (Inr (Some (Child (output_dir self)
          (''oportunidades_'' @ strftime_date date @ ''_p'' @ py_str page @ ''.json''))), w1) \<and>
     files w1 = (files w)(Child (output_dir self)
          (''oportunidades_'' @ strftime_date date @ ''_p'' @ py_str page @ ''.json'') \<mapsto> json_dump data) \<and>
     save_deals self data date page w1 =
       (Inr (Some (Child (output_dir self)
          (''oportunidades_'' @ strftime_date date @ ''_p'' @ py_str page @ ''.json''))), w2) \<and>
     files w2 = files w1 \<and>
     files w2 (Child (output_dir self)
          (''oportunidades_'' @ strftime_date date @ ''_p'' @ py_str page @ ''.json'')) =
       Some (json_dump data)"
  using assms by (simp add: save_deals_def export_name_def Let_def)

text \<open>The first page of the first day of \<^verbatim>\<open>main\<close>, over a file that is already there.\<close>

theorem save_deals_idempotent_witness:
  "\<exists>w1 w2.
     save_deals (DataExporter_init ''out'') (JObj [(''deals'', JList [JInt 7])]) start_date 1
       (main_world ''t'' [Child (Path ''out'') ''oportunidades_2024-07-30_p1.json'' \<mapsto> ''old'']) =
       (Inr (Some (Child (Path ''out'') ''oportunidades_2024-07-30_p1.json'')), w1) \<and>
     save_deals (DataExporter_init ''out'') (JObj [(''deals'', JList [JInt 7])]) start_date 1 w1 =
       (Inr (Some (Child (Path ''out'') ''oportunidades_2024-07-30_p1.json'')), w2) \<and>
     files w1 (Child (Path ''out'') ''oportunidades_2024-07-30_p1.json'') =
       Some (json_dump (JObj [(''deals'', JList [JInt 7])])) \<and>
     files w2 = files w1"
proof -
  have n: "''oportunidades_'' @ strftime_date start_date @ ''_p'' @ py_str 1 @ ''.json'' =
      ''oportunidades_2024-07-30_p1.json''"
    by (simp add: strftime_date_def start_date_def zero_pad_def decimal.simps digit_def py_str_def)
  have d: "py_get (JObj [(''deals'', JList [JInt 7])]) ''deals'' (JList []) = Inr (JList [JInt 7])"
    by simp
  have t: "truthy (JList [JInt 7])" by simp
  from save_deals_idempotent [OF d t, of "DataExporter_init ''out''" start_date 1
      "main_world ''t'' [Child (Path ''out'') ''oportunidades_2024-07-30_p1.json'' \<mapsto> ''old'']"]
  obtain w1 w2 where
    "save_deals (DataExporter_init ''out'') (JObj [(''deals'', JList [JInt 7])]) start_date 1
       (main_world ''t'' [Child (Path ''out'') ''oportunidades_2024-07-30_p1.json'' \<mapsto> ''old'']) =
       (Inr (Some (Child (output_dir (DataExporter_init ''out''))
          (''oportunidades_'' @ strftime_date start_date @ ''_p'' @ py_str 1 @ ''.json''))), w1)"
    "save_deals (DataExporter_init ''out'') (JObj [(''deals'', JList [JInt 7])]) start_date 1 w1 =
       (Inr (Some (Child (output_dir (DataExporter_init ''out''))
          (''oportunidades_'' @ strftime_date start_date @ ''_p'' @ py_str 1 @ ''.json''))), w2)"
    "files w2 = files w1"
    "files w2 (Child (output_dir (DataExporter_init ''out''))
          (''oportunidades_'' @ strftime_date start_date @ ''_p'' @ py_str 1 @ ''.json'')) =
       Some (json_dump (JObj [(''deals'', JList [JInt 7])]))"
    by blast
  then show ?thesis
    unfolding n by (intro exI [of _ w1] exI [of _ w2]) (simp add: DataExporter_init_def)
qed

text \<open>
  C7, as the code has it.  Whatever the date and the page, \<^verbatim>\<open>fetch_deals\<close> returns a
  value (a decoded body or \<^verbatim>\<open>None\<close>) and raises nothing, when the configuration's
  \<open>retry_delay\<close> is one that \<^verbatim>\<open>time.sleep\<close> takes (that of \<^verbatim>\<open>main\<close> is 5) and neither
  \<^verbatim>\<open>requests.get\<close> nor \<^verbatim>\<open>response.json()\<close> raises an exception that is not a
  \<^verbatim>\<open>RequestException\<close>.  In particular a 2xx response whose body is not JSON is a failed
  attempt: when every attempt gets one, all \<open>retry_attempts\<close> GETs are made and the
  result is \<^verbatim>\<open>None\<close>.
\<close>

theorem fetch_deals_never_raises:
  assumes "sleep_error w (retry_delay (config w)) = None"
    and "\<forall>k. \<not> escapes (http k)"
  shows "(\<exists>data. fst (fetch_deals http self date page w) = Inr data) \<and>
     ((\<forall>i < nat (retry_attempts (config w)).
         \<exists>status. 200 \<le> status \<and> status < 300 \<and>
           http (http_calls (trace w) + i) = Response status None) \<longrightarrow>
      fst (fetch_deals http self date page w) = Inr JNull \<and>
      http_calls (trace (snd (fetch_deals http self date page w))) =
        http_calls (trace w) + nat (retry_attempts (config w)))"
proof (intro conjI impI)
  show "\<exists>data. fst (fetch_deals http self date page w) = Inr data"
    unfolding fetch_deals_def using assms by (rule attempts_no_raise)
next
  assume u: "\<forall>i < nat (retry_attempts (config w)).
         \<exists>status. 200 \<le> status \<and> status < 300 \<and>
           http (http_calls (trace w) + i) = Response status None"
  have r: "\<forall>i < nat (retry_attempts (config w)). request_raises (http (http_calls (trace w) + i))"
    using u by fastforce
  show "fst (fetch_deals http self date page w) = Inr JNull"
  proof (cases "1 \<le> retry_attempts (config w)")
    case True
    from fetch_deals_all_fail [OF True assms(1) r, of self date page]
    obtain w' where "fetch_deals http self date page w = (Inr JNull, w')" by blast
    then show ?thesis by simp
  next
    case False
    then show ?thesis by (simp add: fetch_no_attempts)
  qed
  show "http_calls (trace (snd (fetch_deals http self date page w))) =
        http_calls (trace w) + nat (retry_attempts (config w))"
  proof (cases "1 \<le> retry_attempts (config w)")
    case True
    from fetch_deals_all_fail [OF True assms(1) r, of self date page]
    obtain w' where "fetch_deals http self date page w = (Inr JNull, w')"
      "int (length (filter is_get (trace w'))) =
       int (length (filter is_get (trace w))) + retry_attempts (config w)" by blast
    then show ?thesis using True by (simp add: http_calls_def)
  next
    case False
    then show ?thesis by (simp add: fetch_no_attempts)
  qed
qed

text \<open>The configuration of \<^verbatim>\<open>main\<close> against a server whose 200 responses are never JSON.\<close>

theorem fetch_deals_never_raises_witness:
  "fst (fetch_deals (\<lambda>k. Response 200 None) RDStationClient_init start_date 1
          (main_world ''t'' Map.empty)) = Inr JNull \<and>
   http_calls (trace (snd (fetch_deals (\<lambda>k. Response 200 None) RDStationClient_init start_date 1
          (main_world ''t'' Map.empty)))) = 3"
proof -
  have 1: "sleep_error (main_world ''t'' Map.empty) (retry_delay (config (main_world ''t'' Map.empty))) = None"
    by (simp add: main_world_def APIConfig_init_def sleep_error_def)
  have 0: "\<forall>k. \<not> escapes ((\<lambda>k. Response 200 None) k)" by simp
  have 2: "\<forall>i < nat (retry_attempts (config (main_world ''t'' Map.empty))).
         \<exists>status. 200 \<le> status \<and> status < 300 \<and>
           (\<lambda>k. Response 200 None) (http_calls (trace (main_world ''t'' Map.empty)) + i) =
             Response status None"
    by simp
  from fetch_deals_never_raises [where http = "\<lambda>k. Response 200 None", OF 1 0,
      of RDStationClient_init start_date 1] 2
  show ?thesis by (simp add: main_world_def APIConfig_init_def http_calls_def)
qed

text \<open>
  C7 for every sequence of answers fails with the configuration of \<^verbatim>\<open>main\<close>: a 200
  response whose body holds an integer of more than 4300 digits makes
  \<^verbatim>\<open>response.json()\<close> raise \<^verbatim>\<open>ValueError\<close>, one whose brackets are nested too deep makes
  it raise \<^verbatim>\<open>RecursionError\<close>; neither is a \<^verbatim>\<open>RequestException\<close>, and both leave
  \<^verbatim>\<open>fetch_deals\<close>.  So does the \<^verbatim>\<open>ValueError\<close> of the sleep after a failed attempt when
  \<open>retry_delay\<close> is negative.
\<close>

theorem fetch_deals_never_raises_counterexample:
  "fst (fetch_deals (\<lambda>k. DecoderError 200 ValueError) RDStationClient_init start_date 1
      (main_world ''t'' Map.empty)) = Inl ValueError \<and>
   fst (fetch_deals (\<lambda>k. DecoderError 200 RecursionError) RDStationClient_init start_date 1
      (main_world ''t'' Map.empty)) = Inl RecursionError \<and>
   fst (fetch_deals (\<lambda>k. RequestFailed) RDStationClient_init start_date 1
      \<lparr>config = \<lparr>base_url = ''u'', token = ''t'', per_page = 200, retry_attempts = 3, retry_delay = - 5\<rparr>,
       files = Map.empty, trace = [], longest_sleep = 86400\<rparr>) = Inl ValueError"
  by (simp add: fetch_deals_def try_get_def http_calls_def raise_for_status_def Let_def
      sleep_def sleep_error_def main_world_def APIConfig_init_def upto.simps)

text \<open>
  C8.  For every date, the query of \<^verbatim>\<open>fetch_deals\<close> has \<^verbatim>\<open>start_date\<close> equal to that
  calendar date at 00:00:01 and \<^verbatim>\<open>end_date\<close> equal to that date at 23:59:59, whatever the
  time of day of the date passed in: the year, then two digits of month and two of day,
  which is the form \<^verbatim>\<open>YYYY-MM-DDTHH:MM:SS\<close> for every date from the year 1000 on (the
  dates of the collection start in 2024).  Every GET of the fetch carries these
  parameters, and a fetch with \<open>retry_attempts \<ge> 1\<close> makes at least one.
\<close>

theorem fetch_deals_date_window:
  "map_of (fetch_params cfg date page) ''start_date'' =
     Some (PStr (decimal (year date) @ ''-'' @ zero_pad 2 (month date) @ ''-'' @
                 zero_pad 2 (day date) @ ''T00:00:01'')) \<and>
   map_of (fetch_params cfg date page) ''end_date'' =
     Some (PStr (decimal (year date) @ ''-'' @ zero_pad 2 (month date) @ ''-'' @
                 zero_pad 2 (day date) @ ''T23:59:59'')) \<and>
   (1000 \<le> year date \<and> valid_datetime date \<longrightarrow>
      length (decimal (year date)) = 4 \<and> length (zero_pad 2 (month date)) = 2 \<and>
      length (zero_pad 2 (day date)) = 2) \<and>
   (\<forall>c \<in> set (decimal (year date) @ zero_pad 2 (month date) @ zero_pad 2 (day date)).
      c \<in> set ''0123456789'') \<and>
   (\<exists>k. (1 \<le> retry_attempts (config w) \<longrightarrow> 1 \<le> k) \<and>
      filter is_get (trace (snd (fetch_deals http self date page w))) =
      filter is_get (trace w) @
      replicate k (HttpGet (base_url (config w)) (fetch_params (config w) date page) (headers self)))"
proof (intro conjI)
  show "map_of (fetch_params cfg date page) ''start_date'' =
     Some (PStr (decimal (year date) @ ''-'' @ zero_pad 2 (month date) @ ''-'' @
                 zero_pad 2 (day date) @ ''T00:00:01''))"
    by (simp add: fetch_params_def strftime_iso_def strftime_date_def)
  show "map_of (fetch_params cfg date page) ''end_date'' =
     Some (PStr (decimal (year date) @ ''-'' @ zero_pad 2 (month date) @ ''-'' @
                 zero_pad 2 (day date) @ ''T23:59:59''))"
    by (simp add: fetch_params_def strftime_iso_def strftime_date_def)
  show "1000 \<le> year date \<and> valid_datetime date \<longrightarrow>
      length (decimal (year date)) = 4 \<and> length (zero_pad 2 (month date)) = 2 \<and>
      length (zero_pad 2 (day date)) = 2"
    by (simp add: valid_datetime_def length_zero_pad length_decimal_year)
  show "\<forall>c \<in> set (decimal (year date) @ zero_pad 2 (month date) @ zero_pad 2 (day date)).
      c \<in> set ''0123456789''"
  proof (intro ballI)
    fix c
    assume "c \<in> set (decimal (year date) @ zero_pad 2 (month date) @ zero_pad 2 (day date))"
    then have "c \<in> set (decimal (year date)) \<or> c \<in> set (zero_pad 2 (month date)) \<or>
        c \<in> set (zero_pad 2 (day date))"
      by (simp only: set_append Un_iff)
    then show "c \<in> set ''0123456789''"
      using zero_pad_digits decimal_digits by blast
  qed
  show "\<exists>k. (1 \<le> retry_attempts (config w) \<longrightarrow> 1 \<le> k) \<and>
      filter is_get (trace (snd (fetch_deals http self date page w))) =
      filter is_get (trace w) @
      replicate k (HttpGet (base_url (config w)) (fetch_params (config w) date page) (headers self))"
    by (rule fetch_deals_gets)
qed

text \<open>The first day of \<^verbatim>\<open>main\<close>: the query of the GETs of its first fetch.\<close>

theorem fetch_deals_date_window_witness:
  "1000 \<le> year start_date \<and> valid_datetime start_date \<and>
   map_of (fetch_params (config (main_world ''t'' Map.empty)) start_date 1) ''start_date'' =
     Some (PStr ''2024-07-30T00:00:01'') \<and>
   map_of (fetch_params (config (main_world ''t'' Map.empty)) start_date 1) ''end_date'' =
     Some (PStr ''2024-07-30T23:59:59'') \<and>
   length (decimal (year start_date)) = 4 \<and>
   (\<exists>k. 1 \<le> k \<and>
      filter is_get (trace (snd (fetch_deals (\<lambda>k. RequestFailed) RDStationClient_init start_date 1
        (main_world ''t'' Map.empty)))) =
      replicate k (HttpGet ''https://crm.rdstation.com/api/v1/deals''
        (fetch_params (config (main_world ''t'' Map.empty)) start_date 1)
        (headers RDStationClient_init)))"
proof -
  have v: "1000 \<le> year start_date \<and> valid_datetime start_date"
    by (simp add: valid_datetime_def start_date_def)
  have y: "year start_date = 2024" "month start_date = 7" "day start_date = 30"
    by (simp_all add: start_date_def)
  have z: "decimal 2024 = ''2024''" "zero_pad 2 7 = ''07''" "zero_pad 2 30 = ''30''"
    by (simp_all add: zero_pad_def decimal.simps digit_def)
  have m: "1 \<le> retry_attempts (config (main_world ''t'' Map.empty))"
    "base_url (config (main_world ''t'' Map.empty)) = ''https://crm.rdstation.com/api/v1/deals''"
    "trace (main_world ''t'' Map.empty) = []"
    by (simp_all add: main_world_def APIConfig_init_def)
  note t = fetch_deals_date_window [of "config (main_world ''t'' Map.empty)" start_date 1
      "main_world ''t'' Map.empty" "\<lambda>k. RequestFailed" RDStationClient_init]
  have a: "map_of (fetch_params (config (main_world ''t'' Map.empty)) start_date 1) ''start_date'' =
     Some (PStr ''2024-07-30T00:00:01'')"
    using t [THEN conjunct1] by (simp only: y z append.simps)
  have b: "map_of (fetch_params (config (main_world ''t'' Map.empty)) start_date 1) ''end_date'' =
     Some (PStr ''2024-07-30T23:59:59'')"
    using t [THEN conjunct2, THEN conjunct1] by (simp only: y z append.simps)
  have c: "length (decimal (year start_date)) = 4"
    using t [THEN conjunct2, THEN conjunct2, THEN conjunct1] v by blast
  have d: "\<exists>k. 1 \<le> k \<and>
      filter is_get (trace (snd (fetch_deals (\<lambda>k. RequestFailed) RDStationClient_init start_date 1
        (main_world ''t'' Map.empty)))) =
      replicate k (HttpGet ''https://crm.rdstation.com/api/v1/deals''
        (fetch_params (config (main_world ''t'' Map.empty)) start_date 1)
        (headers RDStationClient_init))"
    using t [THEN conjunct2, THEN conjunct2, THEN conjunct2, THEN conjunct2] m
    by (simp only: filter.simps append_Nil) blast
  from v a b c d show ?thesis by blast
qed

text \<open>
  C9.  The \<^verbatim>\<open>APIConfig\<close> object is never changed after \<^verbatim>\<open>main\<close> has built it: a fetch, an
  export, one turn of the page loop and the whole page loop of a day (when it ends) all
  leave every field of the configuration as it was.
\<close>

theorem config_never_mutated:
  "config (snd (fetch_deals http client date page w)) = config w \<and>
   config (snd (save_deals exporter data date page w)) = config w \<and>
   config (snd (page_body exporter date page data w)) = config w \<and>
   (\<forall>y. pages http client exporter date page w = Some y \<longrightarrow> config (snd y) = config w)"
  by (simp add: fetch_deals_config save_deals_config page_body_config pages_config)

theorem config_never_mutated_witness:
  "\<exists>y. pages (\<lambda>k. RequestFailed) RDStationClient_init (DataExporter_init ''out'') start_date 1
          (main_world ''t'' Map.empty) = Some y \<and>
       config (snd y) = APIConfig_init ''https://crm.rdstation.com/api/v1/deals'' ''t''"
proof -
  obtain y where y: "pages (\<lambda>k. RequestFailed) RDStationClient_init (DataExporter_init ''out'')
      start_date 1 (main_world ''t'' Map.empty) = Some y"
    using pages_no_answer by blast
  from config_never_mutated [of "\<lambda>k. RequestFailed" RDStationClient_init start_date 1
      "main_world ''t'' Map.empty" "DataExporter_init ''out''" JNull] y
  have "config (snd y) = config (main_world ''t'' Map.empty)" by blast
  with y show ?thesis by (auto simp: main_world_def)
qed

text \<open>
  C10.  When a fetch returns a body that is false in Python (an empty object and an empty
  list are), the page loop of the day ends at once, in the world the fetch left: the
  exporter is not called, and the turn of the loop is the same as for \<^verbatim>\<open>None\<close>, the
  result of a failed fetch.
\<close>

theorem falsy_body_ends_day:
  assumes "\<not> truthy data"
  shows "page_body exporter date page data w = (Inr Break, w) \<and>
     page_body exporter date page data w = page_body exporter date page JNull w \<and>
     (\<forall>w1. fetch_deals http client date page w = (Inr data, w1) \<longrightarrow>
        pages http client exporter date page w = Some (Inr page, w1))"
proof (intro conjI allI impI)
  show b: "page_body exporter date page data w = (Inr Break, w)" for w
    using assms by (simp add: page_body_def)
  show "page_body exporter date page data w = page_body exporter date page JNull w"
    using assms by (simp add: page_body_def)
  fix w1
  assume "fetch_deals http client date page w = (Inr data, w1)"
  then show "pages http client exporter date page w = Some (Inr page, w1)"
    using b [of w1] by (subst pages.simps) simp
qed

text \<open>
  The empty object and the empty list.  On the empty list \<^verbatim>\<open>save_deals\<close> would raise
  \<^verbatim>\<open>AttributeError\<close>; the loop ends without it.
\<close>

theorem falsy_body_ends_day_witness:
  "page_body (DataExporter_init ''out'') start_date 1 (JObj []) (main_world ''t'' Map.empty) =
     (Inr Break, main_world ''t'' Map.empty) \<and>
   page_body (DataExporter_init ''out'') start_date 1 (JList []) (main_world ''t'' Map.empty) =
     (Inr Break, main_world ''t'' Map.empty) \<and>
   save_deals (DataExporter_init ''out'') (JList []) start_date 1 (main_world ''t'' Map.empty) =
     (Inl AttributeError, main_world ''t'' Map.empty) \<and>
   (\<exists>w1. fetch_deals (\<lambda>k. Response 200 (Some (JObj []))) RDStationClient_init start_date 1
           (main_world ''t'' Map.empty) = (Inr (JObj []), w1) \<and>
         pages (\<lambda>k. Response 200 (Some (JObj []))) RDStationClient_init (DataExporter_init ''out'')
           start_date 1 (main_world ''t'' Map.empty) = Some (Inr 1, w1))"
proof -
  have o: "\<not> truthy (JObj [])" and l: "\<not> truthy (JList [])" by simp_all
  note a = falsy_body_ends_day [OF o, of "DataExporter_init ''out''" start_date 1
      "main_world ''t'' Map.empty" "\<lambda>k. Response 200 (Some (JObj []))" RDStationClient_init]
  note b = falsy_body_ends_day [OF l, of "DataExporter_init ''out''" start_date 1
      "main_world ''t'' Map.empty" "\<lambda>k. Response 200 (Some (JList []))" RDStationClient_init]
  have s: "save_deals (DataExporter_init ''out'') (JList []) start_date 1 (main_world ''t'' Map.empty) =
     (Inl AttributeError, main_world ''t'' Map.empty)"
    by (simp add: save_deals_def)
  obtain w1 where f: "fetch_deals (\<lambda>k. Response 200 (Some (JObj []))) RDStationClient_init
      start_date 1 (main_world ''t'' Map.empty) = (Inr (JObj []), w1)"
    using fetch_first_answer by blast
  with a have "pages (\<lambda>k. Response 200 (Some (JObj []))) RDStationClient_init
      (DataExporter_init ''out'') start_date 1 (main_world ''t'' Map.empty) = Some (Inr 1, w1)"
    by blast
  with a b s f show ?thesis by blast
qed

end
